theory Spec2Isabelle
  imports Complex_Main "HOL-Library.Multiset" "HOL-Library.Word" "HOL-Library.Monad_Syntax"
begin

section \<open>Go's float64, idealised\<close>

text \<open>
  The scoring engine computes on \<^verbatim>\<open>float64\<close>. A value is modelled as a real number or one
  of the three special values of IEEE 754. Arithmetic on numbers is exact (no rounding
  error and no overflow); the special values follow IEEE 754: a division of zero by zero
  is \<open>NaN\<close>, a division of a non-zero number by zero is an infinity, \<open>NaN\<close> is contagious
  and every comparison with \<open>NaN\<close> is false. Zero carries no sign.
\<close>

datatype float64 = Fin real | PInf | NInf | NaN

fun fadd :: "float64 \<Rightarrow> float64 \<Rightarrow> float64" where
  "fadd (Fin a) (Fin b) = Fin (a + b)"
| "fadd (Fin a) PInf = PInf"
| "fadd (Fin a) NInf = NInf"
| "fadd PInf (Fin b) = PInf"
| "fadd PInf PInf = PInf"
| "fadd PInf NInf = NaN"
| "fadd NInf (Fin b) = NInf"
| "fadd NInf PInf = NaN"
| "fadd NInf NInf = NInf"
| "fadd NaN y = NaN"
| "fadd x NaN = NaN"

fun fneg :: "float64 \<Rightarrow> float64" where
  "fneg (Fin a) = Fin (- a)"
| "fneg PInf = NInf"
| "fneg NInf = PInf"
| "fneg NaN = NaN"

definition signed_inf :: "bool \<Rightarrow> float64" where
  "signed_inf positive = (if positive then PInf else NInf)"

fun fmul :: "float64 \<Rightarrow> float64 \<Rightarrow> float64" where
  "fmul (Fin a) (Fin b) = Fin (a * b)"
| "fmul (Fin a) PInf = (if a = 0 then NaN else signed_inf (0 < a))"
| "fmul (Fin a) NInf = (if a = 0 then NaN else signed_inf (a < 0))"
| "fmul PInf (Fin b) = (if b = 0 then NaN else signed_inf (0 < b))"
| "fmul NInf (Fin b) = (if b = 0 then NaN else signed_inf (b < 0))"
| "fmul PInf PInf = PInf"
| "fmul PInf NInf = NInf"
| "fmul NInf PInf = NInf"
| "fmul NInf NInf = PInf"
| "fmul NaN y = NaN"
| "fmul x NaN = NaN"

fun fdiv :: "float64 \<Rightarrow> float64 \<Rightarrow> float64" where
  "fdiv (Fin a) (Fin b) =
     (if b \<noteq> 0 then Fin (a / b) else if a = 0 then NaN else signed_inf (0 < a))"
| "fdiv (Fin a) PInf = Fin 0"
| "fdiv (Fin a) NInf = Fin 0"
| "fdiv PInf (Fin b) = signed_inf (0 \<le> b)"
| "fdiv NInf (Fin b) = signed_inf (b < 0)"
| "fdiv PInf PInf = NaN"
| "fdiv PInf NInf = NaN"
| "fdiv NInf PInf = NaN"
| "fdiv NInf NInf = NaN"
| "fdiv NaN y = NaN"
| "fdiv x NaN = NaN"

fun flt :: "float64 \<Rightarrow> float64 \<Rightarrow> bool" where
  "flt (Fin a) (Fin b) = (a < b)"
| "flt (Fin a) PInf = True"
| "flt NInf (Fin b) = True"
| "flt NInf PInf = True"
| "flt x y = False"

fun fle :: "float64 \<Rightarrow> float64 \<Rightarrow> bool" where
  "fle (Fin a) (Fin b) = (a \<le> b)"
| "fle (Fin a) PInf = True"
| "fle NInf (Fin b) = True"
| "fle NInf PInf = True"
| "fle PInf PInf = True"
| "fle NInf NInf = True"
| "fle x y = False"

text \<open>Go's \<^verbatim>\<open>==\<close> on float64: \<open>NaN\<close> is not equal to itself.\<close>

definition feq :: "float64 \<Rightarrow> float64 \<Rightarrow> bool" where
  "feq x y = (x \<noteq> NaN \<and> y \<noteq> NaN \<and> x = y)"

definition IsNaN :: "float64 \<Rightarrow> bool" where
  "IsNaN x = (x = NaN)"

text \<open>\<^verbatim>\<open>math.Round\<close>: the nearest integer, halves away from zero.\<close>

definition go_round :: "real \<Rightarrow> int" where
  "go_round x = (if 0 \<le> x then \<lfloor>x + 1/2\<rfloor> else - \<lfloor>- x + 1/2\<rfloor>)"

fun Round :: "float64 \<Rightarrow> float64" where
  "Round (Fin a) = Fin (of_int (go_round a))"
| "Round PInf = PInf"
| "Round NInf = NInf"
| "Round NaN = NaN"

fun Sqrt :: "float64 \<Rightarrow> float64" where
  "Sqrt (Fin a) = (if a < 0 then NaN else Fin (sqrt a))"
| "Sqrt PInf = PInf"
| "Sqrt NInf = NaN"
| "Sqrt NaN = NaN"

fun Abs :: "float64 \<Rightarrow> float64" where
  "Abs (Fin a) = Fin \<bar>a\<bar>"
| "Abs PInf = PInf"
| "Abs NInf = PInf"
| "Abs NaN = NaN"

instantiation float64 :: "{zero, one, plus, minus, uminus, times, inverse, ord}"
begin
definition zero_float64 :: float64 where "zero_float64 = Fin 0"
definition one_float64 :: float64 where "one_float64 = Fin 1"
definition plus_float64 :: "float64 \<Rightarrow> float64 \<Rightarrow> float64" where "plus_float64 = fadd"
definition uminus_float64 :: "float64 \<Rightarrow> float64" where "uminus_float64 = fneg"
definition minus_float64 :: "float64 \<Rightarrow> float64 \<Rightarrow> float64" where
  "minus_float64 x y = fadd x (fneg y)"
definition times_float64 :: "float64 \<Rightarrow> float64 \<Rightarrow> float64" where "times_float64 = fmul"
definition divide_float64 :: "float64 \<Rightarrow> float64 \<Rightarrow> float64" where "divide_float64 = fdiv"
definition inverse_float64 :: "float64 \<Rightarrow> float64" where "inverse_float64 x = fdiv (Fin 1) x"
definition less_float64 :: "float64 \<Rightarrow> float64 \<Rightarrow> bool" where "less_float64 = flt"
definition less_eq_float64 :: "float64 \<Rightarrow> float64 \<Rightarrow> bool" where "less_eq_float64 = fle"
instance ..
end

lemma fadd_assoc: "fadd (fadd a b) c = fadd a (fadd b c)"
  by (cases a; cases b; cases c) simp_all

lemma fadd_commute: "fadd a b = fadd b a"
  by (cases a; cases b) simp_all

lemma fadd_zero: "fadd (Fin 0) a = a"
  by (cases a) simp_all

instance float64 :: comm_monoid_add
proof
  fix a b c :: float64
  show "a + b + c = a + (b + c)"
    unfolding plus_float64_def by (rule fadd_assoc)
  show "a + b = b + a"
    unfolding plus_float64_def by (rule fadd_commute)
  show "0 + a = a"
    unfolding plus_float64_def zero_float64_def by (rule fadd_zero)
qed

instance float64 :: numeral ..

lemma numeral_float64 [simp]: "(numeral n :: float64) = Fin (numeral n)"
proof (induction n)
  case One
  show ?case by (simp add: one_float64_def)
next
  case (Bit0 n)
  show ?case
    unfolding numeral_Bit0 [where 'a = float64] Bit0.IH plus_float64_def
    by (simp add: numeral_Bit0)
next
  case (Bit1 n)
  show ?case
    unfolding numeral_Bit1 [where 'a = float64] Bit1.IH plus_float64_def one_float64_def
    by (simp add: numeral_Bit1)
qed

lemma float64_arith [simp]:
  "Fin a + Fin b = Fin (a + b)"
  "Fin a - Fin b = Fin (a - b)"
  "Fin a * Fin b = Fin (a * b)"
  "(Fin a < Fin b) = (a < b)"
  "(Fin a \<le> Fin b) = (a \<le> b)"
  "(0 :: float64) = Fin 0"
  "(1 :: float64) = Fin 1"
  by (simp_all add: plus_float64_def minus_float64_def times_float64_def less_float64_def
      less_eq_float64_def zero_float64_def one_float64_def)

lemma float64_div [simp]:
  "b \<noteq> 0 \<Longrightarrow> Fin a / Fin b = Fin (a / b)"
  "Fin 0 / Fin 0 = NaN"
  by (simp_all add: divide_float64_def)

lemma float64_NaN [simp]:
  "NaN + x = NaN" "x + NaN = NaN" "NaN - x = NaN" "x - NaN = NaN"
  "NaN * x = NaN" "x * NaN = NaN" "NaN / x = NaN" "x / NaN = NaN"
  "\<not> NaN < x" "\<not> x < NaN" "\<not> feq NaN x" "\<not> feq x NaN"
  by (cases x; simp add: plus_float64_def minus_float64_def times_float64_def
      divide_float64_def less_float64_def feq_def)+

lemma feq_Fin [simp]: "feq (Fin a) (Fin b) = (a = b)"
  by (simp add: feq_def)

section \<open>Go maps\<close>

text \<open>
  A Go map is modelled by the list of its entries in the order in which a \<^verbatim>\<open>range\<close> loop
  visits them, which Go leaves unspecified: a statement about a map holds for every such
  list. The keys of a map are distinct. A map that a function builds is kept in the order
  of its assignments; what the functions below return for a key does not depend on that
  order, since a sum of float64 values in this model does not depend on the order of its
  terms.
\<close>

type_synonym 'v gomap = "(string \<times> 'v) list"

definition getOrDefault :: "float64 gomap \<Rightarrow> string \<Rightarrow> float64 \<Rightarrow> float64" where
  "getOrDefault m key def = (case map_of m key of Some v \<Rightarrow> v | None \<Rightarrow> def)"

text \<open>The assignment \<^verbatim>\<open>m[k] = v\<close>.\<close>

fun put :: "'v gomap \<Rightarrow> string \<Rightarrow> 'v \<Rightarrow> 'v gomap" where
  "put [] k v = [(k, v)]"
| "put ((k', v') # m) k v = (if k' = k then (k, v) # m else (k', v') # put m k v)"

section \<open>The normalizers (analysis/signals.go)\<close>

text \<open>
  The loop of \<^verbatim>\<open>NormalizeScore\<close> that finds the least and the greatest value; \<open>first\<close> is
  the flag of the source.
\<close>

fun minmax_loop :: "float64 list \<Rightarrow> bool \<Rightarrow> float64 \<Rightarrow> float64 \<Rightarrow> float64 \<times> float64" where
  "minmax_loop [] first minVal maxVal = (minVal, maxVal)"
| "minmax_loop (v # vs) first minVal maxVal =
     (if first then minmax_loop vs False v v
      else minmax_loop vs False (if v < minVal then v else minVal)
             (if v > maxVal then v else maxVal))"

definition NormalizeScore :: "float64 gomap \<Rightarrow> bool \<Rightarrow> float64 gomap" where
  "NormalizeScore values higherIsBetter =
     (if length values = 0 then []
      else
        let (minVal, maxVal) = minmax_loop (map snd values) True 0 0 in
        if feq maxVal minVal then map (\<lambda>(k, v). (k, 50)) values
        else map (\<lambda>(sector, val).
               let score = ((val - minVal) / (maxVal - minVal)) * 100;
                   score = (if \<not> higherIsBetter then 100 - score else score)
               in (sector, Round (score * 100) / 100)) values)"

text \<open>
  \<^verbatim>\<open>stat.Mean\<close> and \<^verbatim>\<open>stat.StdDev\<close> of gonum, called with nil weights. \<^verbatim>\<open>StdDev\<close> is the
  sample standard deviation: the square root of \<^verbatim>\<open>Variance\<close>, which divides the corrected
  sum of squares \<^verbatim>\<open>ss - compensation*compensation/n\<close> by \<^verbatim>\<open>n - 1\<close>.
\<close>

definition Mean :: "float64 list \<Rightarrow> float64" where
  "Mean x = sum_list x / Fin (real (length x))"

definition Variance :: "float64 list \<Rightarrow> float64" where
  "Variance x =
     (let mean = Mean x;
          ss = sum_list (map (\<lambda>v. (v - mean) * (v - mean)) x);
          compensation = sum_list (map (\<lambda>v. v - mean) x);
          n = Fin (real (length x))
      in (ss - compensation * compensation / n) / (n - 1))"

definition StdDev :: "float64 list \<Rightarrow> float64" where
  "StdDev x = Sqrt (Variance x)"

definition NormalizeScoreZScore :: "float64 gomap \<Rightarrow> bool \<Rightarrow> float64 gomap" where
  "NormalizeScoreZScore values higherIsBetter =
     (if length values = 0 then []
      else
        let vals = map snd values;
            mean = Mean vals;
            std = StdDev vals in
        if feq std 0 then map (\<lambda>(k, v). (k, 50)) values
        else map (\<lambda>(sector, val).
               let z = (val - mean) / std;
                   score = 50 + (z * 15);
                   score = (if score < 0 then 0 else score);
                   score = (if score > 100 then 100 else score);
                   score = (if \<not> higherIsBetter then 100 - score else score)
               in (sector, Round (score * 100) / 100)) values)"


section \<open>Configuration (package config)\<close>

definition SectorNames :: "string list" where
  "SectorNames =
     [''Information Technology'', ''Financials'', ''Energy'', ''Health Care'',
      ''Consumer Discretionary'', ''Consumer Staples'', ''Industrials'', ''Materials'',
      ''Utilities'', ''Real Estate'', ''Communication Services'']"

definition DefaultWeights :: "float64 gomap" where
  "DefaultWeights =
     [(''momentum'', Fin (25/100)), (''valuation'', Fin (20/100)), (''growth'', Fin (20/100)),
      (''innovation'', Fin (20/100)), (''macro'', Fin (15/100))]"

definition MomentumPeriods :: "int list" where
  "MomentumPeriods = [3, 6, 12]"

section \<open>The data snapshot (data/types.go)\<close>

record PriceBar =
  Date :: int
  Open :: float64
  High :: float64
  Low :: float64
  Close :: float64
  Volume :: "64 word"

type_synonym PriceSeries = "PriceBar list"

record SectorInfo =
  ForwardPE :: "float64 option"
  TrailingPE :: "float64 option"
  DividendYield :: "float64 option"
  AvgVolume :: "64 word option"
  MarketCap :: "float64 option"

record TimeSeries =
  Dates :: "int list"
  Values :: "float64 list"

record AllData =
  SectorPrices :: "PriceSeries gomap"
  SectorInfo :: "SectorInfo gomap"
  MacroData :: "TimeSeries gomap"
  EmploymentData :: "TimeSeries gomap"
  RDData :: "float64 gomap"
  FetchedAt :: int

text \<open>
  An index expression \<^verbatim>\<open>xs[i]\<close> and a slice expression \<^verbatim>\<open>xs[i:]\<close>. \<open>None\<close> is the run-time
  panic of an index out of range; every function below that can reach one returns an
  option, and \<open>None\<close> is the panic.
\<close>

definition go_index :: "'a list \<Rightarrow> int \<Rightarrow> 'a option" where
  "go_index xs i = (if 0 \<le> i \<and> i < int (length xs) then Some (xs ! nat i) else None)"

definition slice_from :: "'a list \<Rightarrow> int \<Rightarrow> 'a list option" where
  "slice_from xs i = (if 0 \<le> i \<and> i \<le> int (length xs) then Some (drop (nat i) xs) else None)"

text \<open>\<^verbatim>\<open>len(xs)\<close>, a Go \<^verbatim>\<open>int\<close>.\<close>

abbreviation len :: "'a list \<Rightarrow> int" where
  "len xs \<equiv> int (length xs)"

section \<open>Signal calculators (analysis/signals.go)\<close>

definition defaultScores :: "float64 gomap" where
  "defaultScores = foldl (\<lambda>scores sector. put scores sector 50) [] SectorNames"

definition periodKey :: "int \<Rightarrow> string" where
  "periodKey months =
     (if months = 3 then ''3mo'' else if months = 6 then ''6mo''
      else if months = 12 then ''12mo'' else '''')"

fun sectorReturns_loop :: "PriceSeries \<Rightarrow> int list \<Rightarrow> float64 gomap \<Rightarrow> float64 gomap option" where
  "sectorReturns_loop series [] sectorReturns = Some sectorReturns"
| "sectorReturns_loop series (months # rest) sectorReturns =
     (let tradingDays = months * 21 in
      if len series \<ge> tradingDays then
        do {
          startBar \<leftarrow> go_index series (len series - tradingDays);
          endBar \<leftarrow> go_index series (len series - 1);
          let startPrice = Close startBar;
          let endPrice = Close endBar;
          let ret = ((endPrice - startPrice) / startPrice) * 100;
          sectorReturns_loop series rest (put sectorReturns (periodKey months) ret)
        }
      else sectorReturns_loop series rest sectorReturns)"

fun CalculatePriceReturns_loop ::
  "PriceSeries gomap \<Rightarrow> float64 gomap gomap \<Rightarrow> float64 gomap gomap option" where
  "CalculatePriceReturns_loop [] returns = Some returns"
| "CalculatePriceReturns_loop ((sector, series) # rest) returns =
     (if sector = ''_benchmark'' \<or> len series < 20 then CalculatePriceReturns_loop rest returns
      else do {
        sectorReturns \<leftarrow> sectorReturns_loop series MomentumPeriods [];
        if len sectorReturns > 0
        then CalculatePriceReturns_loop rest (put returns sector sectorReturns)
        else CalculatePriceReturns_loop rest returns
      })"

definition CalculatePriceReturns :: "PriceSeries gomap \<Rightarrow> float64 gomap gomap option" where
  "CalculatePriceReturns prices = CalculatePriceReturns_loop prices []"

fun CalculateRelativeStrength_loop ::
  "PriceSeries gomap \<Rightarrow> int \<Rightarrow> float64 \<Rightarrow> float64 gomap \<Rightarrow> float64 gomap option" where
  "CalculateRelativeStrength_loop [] tradingDays benchmarkReturn relStrength = Some relStrength"
| "CalculateRelativeStrength_loop ((sector, series) # rest) tradingDays benchmarkReturn relStrength =
     (if sector = ''_benchmark'' \<or> len series < tradingDays
      then CalculateRelativeStrength_loop rest tradingDays benchmarkReturn relStrength
      else do {
        endBar \<leftarrow> go_index series (len series - 1);
        startBar \<leftarrow> go_index series (len series - tradingDays);
        let sectorReturn = (Close endBar / Close startBar - 1) * 100;
        CalculateRelativeStrength_loop rest tradingDays benchmarkReturn
          (put relStrength sector (sectorReturn - benchmarkReturn))
      })"

definition CalculateRelativeStrength :: "PriceSeries gomap \<Rightarrow> int \<Rightarrow> float64 gomap option" where
  "CalculateRelativeStrength prices periodMonths =
     (case map_of prices ''_benchmark'' of
        None \<Rightarrow> Some []
      | Some benchmarkSeries \<Rightarrow>
          if len benchmarkSeries = 0 then Some []
          else
            let tradingDays = periodMonths * 21 in
            if len benchmarkSeries < tradingDays then Some []
            else do {
              endBar \<leftarrow> go_index benchmarkSeries (len benchmarkSeries - 1);
              startBar \<leftarrow> go_index benchmarkSeries (len benchmarkSeries - tradingDays);
              let benchmarkReturn = (Close endBar / Close startBar - 1) * 100;
              CalculateRelativeStrength_loop prices tradingDays benchmarkReturn []
            })"

text \<open>
  The loops \<^verbatim>\<open>for i := len(series) - period; i < len(series); i++ { sum += series[i].Volume }\<close>
  of \<^verbatim>\<open>CalculateVolumeTrend\<close>; the sum is an \<^verbatim>\<open>int64\<close> and wraps around.
\<close>

function sumVolume :: "PriceSeries \<Rightarrow> int \<Rightarrow> 64 word \<Rightarrow> 64 word option" where
  "sumVolume series i volumeSum =
     (if i < len series then
        (case go_index series i of None \<Rightarrow> None
         | Some bar \<Rightarrow> sumVolume series (i + 1) (volumeSum + Volume bar))
      else Some volumeSum)"
  by pat_completeness auto
termination
  by (relation "measure (\<lambda>(series, i, volumeSum). nat (len series - i))") auto

declare sumVolume.simps [simp del]

text \<open>The conversion \<^verbatim>\<open>float64(n)\<close> of an \<^verbatim>\<open>int64\<close> and of an \<^verbatim>\<open>int\<close>.\<close>

definition float64_of_int64 :: "64 word \<Rightarrow> float64" where
  "float64_of_int64 n = Fin (real_of_int (sint n))"

definition float64_of_int :: "int \<Rightarrow> float64" where
  "float64_of_int n = Fin (real_of_int n)"

fun CalculateVolumeTrend_loop ::
  "PriceSeries gomap \<Rightarrow> int \<Rightarrow> int \<Rightarrow> float64 gomap \<Rightarrow> float64 gomap option" where
  "CalculateVolumeTrend_loop [] shortPeriod longPeriod trends = Some trends"
| "CalculateVolumeTrend_loop ((sector, series) # rest) shortPeriod longPeriod trends =
     (if sector = ''_benchmark'' \<or> len series < longPeriod
      then CalculateVolumeTrend_loop rest shortPeriod longPeriod trends
      else do {
        shortSum \<leftarrow> sumVolume series (len series - shortPeriod) 0;
        let shortAvg = float64_of_int64 shortSum / float64_of_int shortPeriod;
        longSum \<leftarrow> sumVolume series (len series - longPeriod) 0;
        let longAvg = float64_of_int64 longSum / float64_of_int longPeriod;
        if longAvg > 0
        then CalculateVolumeTrend_loop rest shortPeriod longPeriod
               (put trends sector (((shortAvg - longAvg) / longAvg) * 100))
        else CalculateVolumeTrend_loop rest shortPeriod longPeriod trends
      })"

definition CalculateVolumeTrend :: "PriceSeries gomap \<Rightarrow> int \<Rightarrow> int \<Rightarrow> float64 gomap option" where
  "CalculateVolumeTrend prices shortPeriod longPeriod =
     CalculateVolumeTrend_loop prices shortPeriod longPeriod []"

definition CalculateMomentumScore :: "PriceSeries gomap \<Rightarrow> float64 gomap option" where
  "CalculateMomentumScore prices =
     do {
       returns \<leftarrow> CalculatePriceReturns prices;
       relStrength \<leftarrow> CalculateRelativeStrength prices 12;
       volumeTrend \<leftarrow> CalculateVolumeTrend prices 20 50;
       let returns12mo = foldl (\<lambda>returns12mo (sector, rets).
             case map_of rets ''12mo'' of Some ret \<Rightarrow> put returns12mo sector ret
             | None \<Rightarrow> returns12mo) [] returns;
       let normReturns = NormalizeScoreZScore returns12mo True;
       let normRelStrength = NormalizeScoreZScore relStrength True;
       let normVolume = NormalizeScoreZScore volumeTrend True;
       Some (foldl (\<lambda>momentumScores sector.
               let retScore = getOrDefault normReturns sector 50;
                   rsScore = getOrDefault normRelStrength sector 50;
                   volScore = getOrDefault normVolume sector 50;
                   combined = (Fin (50/100) * retScore) + (Fin (35/100) * rsScore)
                              + (Fin (15/100) * volScore)
               in put momentumScores sector (Round (combined * 100) / 100))
             [] SectorNames)
     }"

text \<open>The loop that fills in a default for the sectors without a score.\<close>

definition fill_missing :: "float64 gomap \<Rightarrow> float64 \<Rightarrow> float64 gomap" where
  "fill_missing scores def =
     foldl (\<lambda>scores sector. if map_of scores sector = None then put scores sector def else scores)
       scores SectorNames"

definition CalculateValuationScore :: "float64 gomap \<Rightarrow> SectorInfo gomap \<Rightarrow> float64 gomap" where
  "CalculateValuationScore sectorPE sectorInfo =
     (let peMap = foldl (\<lambda>peMap (sector, pe). if pe > 0 then put peMap sector pe else peMap)
                    [] sectorPE;
          peMap = foldl (\<lambda>peMap (sector, info).
                    case SectorInfo.ForwardPE info of
                      Some fpe \<Rightarrow> if map_of peMap sector = None \<and> fpe > 0
                                  then put peMap sector fpe else peMap
                    | None \<Rightarrow> peMap) peMap sectorInfo
      in if len peMap = 0 then defaultScores
         else fill_missing (NormalizeScoreZScore peMap False) 50)"

fun CalculateEmploymentGrowth_loop ::
  "TimeSeries gomap \<Rightarrow> float64 gomap \<Rightarrow> float64 gomap option" where
  "CalculateEmploymentGrowth_loop [] growthRates = Some growthRates"
| "CalculateEmploymentGrowth_loop ((sector, ts) # rest) growthRates =
     (if len (Values ts) < 13 then CalculateEmploymentGrowth_loop rest growthRates
      else do {
        current \<leftarrow> go_index (Values ts) (len (Values ts) - 1);
        yearAgo \<leftarrow> go_index (Values ts) (len (Values ts) - 13);
        if yearAgo > 0
        then CalculateEmploymentGrowth_loop rest
               (put growthRates sector (((current - yearAgo) / yearAgo) * 100))
        else CalculateEmploymentGrowth_loop rest growthRates
      })"

definition CalculateEmploymentGrowth :: "TimeSeries gomap \<Rightarrow> float64 gomap option" where
  "CalculateEmploymentGrowth employment = CalculateEmploymentGrowth_loop employment []"

definition CalculateGrowthScore :: "TimeSeries gomap \<Rightarrow> float64 gomap option" where
  "CalculateGrowthScore employment =
     do {
       growth \<leftarrow> CalculateEmploymentGrowth employment;
       if len growth = 0 then Some defaultScores
       else Some (fill_missing (NormalizeScoreZScore growth True) 50)
     }"

definition CalculateInnovationScore :: "float64 gomap \<Rightarrow> float64 gomap" where
  "CalculateInnovationScore rdData =
     (if len rdData = 0 then defaultScores
      else
        let validRD = foldl (\<lambda>validRD (sector, rd). if rd > 0 then put validRD sector rd else validRD)
                        [] rdData
        in if len validRD = 0 then defaultScores
           else fill_missing (NormalizeScoreZScore validRD True) 30)"

text \<open>
  \<^verbatim>\<open>monthlyChanges\<close>: the loop \<^verbatim>\<open>for i := 1; i < len(ts.Values); i++\<close>.
\<close>

function monthlyChanges_loop :: "float64 list \<Rightarrow> int \<Rightarrow> float64 list \<Rightarrow> float64 list option" where
  "monthlyChanges_loop vals i changes =
     (if i < len vals then
        do {
          prev \<leftarrow> go_index vals (i - 1);
          if \<not> feq prev 0 then
            do {
              cur \<leftarrow> go_index vals i;
              monthlyChanges_loop vals (i + 1) (changes @ [(cur - prev) / prev])
            }
          else monthlyChanges_loop vals (i + 1) changes
        }
      else Some changes)"
  by pat_completeness auto
termination
  by (relation "measure (\<lambda>(vals, i, changes). nat (len vals - i))") auto

declare monthlyChanges_loop.simps [simp del]

definition monthlyChanges :: "TimeSeries \<Rightarrow> float64 list option" where
  "monthlyChanges ts =
     (if len (Values ts) < 2 then Some [] else monthlyChanges_loop (Values ts) 1 [])"

text \<open>
  \<^verbatim>\<open>monthlyReturnsFromPrices\<close>: the loop \<^verbatim>\<open>for i := 21; i < len(series); i += 21\<close>.
\<close>

function monthlyReturns_loop :: "PriceSeries \<Rightarrow> int \<Rightarrow> float64 list \<Rightarrow> float64 list option" where
  "monthlyReturns_loop series i returns =
     (if i < len series then
        do {
          prevBar \<leftarrow> go_index series (i - 21);
          currBar \<leftarrow> go_index series i;
          let prevPrice = Close prevBar;
          let currPrice = Close currBar;
          if prevPrice > 0
          then monthlyReturns_loop series (i + 21) (returns @ [(currPrice - prevPrice) / prevPrice])
          else monthlyReturns_loop series (i + 21) returns
        }
      else Some returns)"
  by pat_completeness auto
termination
  by (relation "measure (\<lambda>(series, i, returns). nat (len series - i))") auto

declare monthlyReturns_loop.simps [simp del]

definition monthlyReturnsFromPrices :: "PriceSeries \<Rightarrow> float64 list option" where
  "monthlyReturnsFromPrices series =
     (if len series < 21 then Some [] else monthlyReturns_loop series 21 [])"

text \<open>
  \<^verbatim>\<open>stat.Correlation\<close> of gonum with nil weights: the Pearson correlation by the corrected
  two-pass algorithm. It panics when the lengths differ.
\<close>

definition Correlation :: "float64 list \<Rightarrow> float64 list \<Rightarrow> float64 option" where
  "Correlation x y =
     (if length x \<noteq> length y then None
      else
        let xu = Mean x;
            yu = Mean y;
            sxx = sum_list (map (\<lambda>xv. (xv - xu) * (xv - xu)) x);
            syy = sum_list (map (\<lambda>yv. (yv - yu) * (yv - yu)) y);
            sxy = sum_list (map (\<lambda>(xv, yv). (xv - xu) * (yv - yu)) (zip x y));
            xcompensation = sum_list (map (\<lambda>xv. xv - xu) x);
            ycompensation = sum_list (map (\<lambda>yv. yv - yu) y);
            n = Fin (real (length x));
            sxx = sxx - xcompensation * xcompensation / n;
            syy = syy - ycompensation * ycompensation / n
        in Some ((sxy - xcompensation * ycompensation / n) / Sqrt (sxx * syy)))"

fun CalculateRateSensitivity_loop ::
  "PriceSeries gomap \<Rightarrow> float64 list \<Rightarrow> float64 gomap \<Rightarrow> float64 gomap option" where
  "CalculateRateSensitivity_loop [] rateChanges sensitivities = Some sensitivities"
| "CalculateRateSensitivity_loop ((sector, series) # rest) rateChanges sensitivities =
     (if sector = ''_benchmark'' \<or> len series < 252
      then CalculateRateSensitivity_loop rest rateChanges sensitivities
      else do {
        sectorReturns \<leftarrow> monthlyReturnsFromPrices series;
        if len sectorReturns < 12 \<or> len rateChanges < 12
        then CalculateRateSensitivity_loop rest rateChanges sensitivities
        else
          let n = min (len sectorReturns) (len rateChanges) in
          if n < 12 then CalculateRateSensitivity_loop rest rateChanges sensitivities
          else do {
            returns \<leftarrow> slice_from sectorReturns (len sectorReturns - n);
            rates \<leftarrow> slice_from rateChanges (len rateChanges - n);
            corr \<leftarrow> Correlation returns rates;
            if \<not> IsNaN corr
            then CalculateRateSensitivity_loop rest rateChanges (put sensitivities sector corr)
            else CalculateRateSensitivity_loop rest rateChanges sensitivities
          }
      })"

definition CalculateRateSensitivity :: "PriceSeries gomap \<Rightarrow> TimeSeries \<Rightarrow> float64 gomap option" where
  "CalculateRateSensitivity prices interestRates =
     (if len (Values interestRates) = 0 then Some []
      else do {
        rateChanges \<leftarrow> monthlyChanges interestRates;
        CalculateRateSensitivity_loop prices rateChanges []
      })"

definition CalculateMacroScore :: "PriceSeries gomap \<Rightarrow> TimeSeries gomap \<Rightarrow> float64 gomap option" where
  "CalculateMacroScore prices macroData =
     (case map_of macroData ''treasury_10y'' of
        None \<Rightarrow> Some defaultScores
      | Some interestRates \<Rightarrow>
          do {
            sensitivity \<leftarrow> CalculateRateSensitivity prices interestRates;
            if len sensitivity = 0 then Some defaultScores
            else Some (fill_missing (NormalizeScoreZScore sensitivity False) 50)
          })"

section \<open>The composite scorer\<close>

record SectorScore =
  Sector :: string
  OpportunityScore :: float64
  Rank :: int
  MomentumScore :: float64
  ValuationScore :: float64
  GrowthScore :: float64
  InnovationScore :: float64
  MacroScore :: float64
  PriceReturn3Mo :: "float64 option"
  PriceReturn6Mo :: "float64 option"
  PriceReturn12Mo :: "float64 option"
  RelativeStrength :: "float64 option"
  ForwardPE :: "float64 option"
  EmploymentGrowth :: "float64 option"
  RDIntensity :: "float64 option"

record SectorScorer =
  Weights :: "float64 gomap"

text \<open>
  \<^verbatim>\<open>NewSectorScorer\<close>; \<open>None\<close> is the nil map. The second loop assigns to the keys it
  ranges over, each once.
\<close>

definition NewSectorScorer :: "float64 gomap option \<Rightarrow> SectorScorer" where
  "NewSectorScorer weights =
     (let weights = (case weights of None \<Rightarrow> DefaultWeights | Some w \<Rightarrow> w);
          total = foldl (\<lambda>total w. total + w) 0 (map snd weights)
      in if total > 0 \<and> Abs (total - 1) > Fin (1/100)
         then \<lparr>Weights = map (\<lambda>(k, v). (k, v / total)) weights\<rparr>
         else \<lparr>Weights = weights\<rparr>)"

text \<open>A map read \<^verbatim>\<open>m[k]\<close>: the zero value when the key is absent.\<close>

definition weight :: "float64 gomap \<Rightarrow> string \<Rightarrow> float64" where
  "weight m k = (case map_of m k of Some v \<Rightarrow> v | None \<Rightarrow> 0)"

text \<open>
  \<^verbatim>\<open>sort.Slice\<close> of Go 1.21 (the toolchain the repository names) on a slice of at most
  12 elements runs \<^verbatim>\<open>insertionSortLessFunc\<close>: each element in turn is swapped leftwards
  while it is less than its left neighbour. \<open>insert_left\<close> is the inner loop on the
  sorted prefix, held in reverse. Longer slices, which this program never sorts, take
  another algorithm and are left out: \<open>None\<close>.
\<close>

fun insert_left :: "('a \<Rightarrow> 'a \<Rightarrow> bool) \<Rightarrow> 'a \<Rightarrow> 'a list \<Rightarrow> 'a list" where
  "insert_left lessFn x [] = [x]"
| "insert_left lessFn x (y # ys) =
     (if lessFn x y then y # insert_left lessFn x ys else x # y # ys)"

definition insertionSort :: "('a \<Rightarrow> 'a \<Rightarrow> bool) \<Rightarrow> 'a list \<Rightarrow> 'a list" where
  "insertionSort lessFn xs = rev (foldl (\<lambda>prefix x. insert_left lessFn x prefix) [] xs)"

definition sort_Slice :: "'a list \<Rightarrow> ('a \<Rightarrow> 'a \<Rightarrow> bool) \<Rightarrow> 'a list option" where
  "sort_Slice xs lessFn = (if length xs \<le> 12 then Some (insertionSort lessFn xs) else None)"

text \<open>The body of the loop of \<^verbatim>\<open>CalculateScores\<close> over the sector names.\<close>

definition sector_score ::
  "SectorScorer \<Rightarrow> AllData \<Rightarrow> float64 gomap \<Rightarrow> float64 gomap \<Rightarrow> float64 gomap \<Rightarrow> float64 gomap
   \<Rightarrow> float64 gomap \<Rightarrow> float64 gomap gomap \<Rightarrow> float64 gomap \<Rightarrow> float64 gomap \<Rightarrow> string
   \<Rightarrow> SectorScore" where
  "sector_score s allData momentumScores valuationScores growthScores innovationScores
     macroScores priceReturns relStrength employmentGrowth sector =
     (let momentum = getOrDefault momentumScores sector 50;
          valuation = getOrDefault valuationScores sector 50;
          growth = getOrDefault growthScores sector 50;
          innovation = getOrDefault innovationScores sector 50;
          macro = getOrDefault macroScores sector 50;
          opportunity = (weight (Weights s) ''momentum'' * momentum) +
            (weight (Weights s) ''valuation'' * valuation) +
            (weight (Weights s) ''growth'' * growth) +
            (weight (Weights s) ''innovation'' * innovation) +
            (weight (Weights s) ''macro'' * macro)
      in \<lparr>Sector = sector,
          OpportunityScore = Round (opportunity * 100) / 100,
          Rank = 0,
          MomentumScore = momentum,
          ValuationScore = valuation,
          GrowthScore = growth,
          InnovationScore = innovation,
          MacroScore = macro,
          PriceReturn3Mo = (case map_of priceReturns sector of
                              Some returns \<Rightarrow> map_of returns ''3mo'' | None \<Rightarrow> None),
          PriceReturn6Mo = (case map_of priceReturns sector of
                              Some returns \<Rightarrow> map_of returns ''6mo'' | None \<Rightarrow> None),
          PriceReturn12Mo = (case map_of priceReturns sector of
                              Some returns \<Rightarrow> map_of returns ''12mo'' | None \<Rightarrow> None),
          RelativeStrength = map_of relStrength sector,
          ForwardPE = (case map_of (SectorInfo allData) sector of
                         Some info \<Rightarrow> SectorInfo.ForwardPE info | None \<Rightarrow> None),
          EmploymentGrowth = map_of employmentGrowth sector,
          RDIntensity = map_of (RDData allData) sector\<rparr>)"

definition assign_ranks :: "SectorScore list \<Rightarrow> SectorScore list" where
  "assign_ranks scores = map (\<lambda>(i, score). score\<lparr>Rank := int i + 1\<rparr>) (enumerate 0 scores)"

definition CalculateScores :: "SectorScorer \<Rightarrow> AllData \<Rightarrow> SectorScore list option" where
  "CalculateScores s allData =
     do {
       momentumScores \<leftarrow> CalculateMomentumScore (SectorPrices allData);
       let valuationScores = CalculateValuationScore [] (SectorInfo allData);
       growthScores \<leftarrow> CalculateGrowthScore (EmploymentData allData);
       let innovationScores = CalculateInnovationScore (RDData allData);
       macroScores \<leftarrow> CalculateMacroScore (SectorPrices allData) (MacroData allData);
       priceReturns \<leftarrow> CalculatePriceReturns (SectorPrices allData);
       relStrength \<leftarrow> CalculateRelativeStrength (SectorPrices allData) 12;
       employmentGrowth \<leftarrow> CalculateEmploymentGrowth (EmploymentData allData);
       let scores = map (sector_score s allData momentumScores valuationScores growthScores
                          innovationScores macroScores priceReturns relStrength employmentGrowth)
                      SectorNames;
       scores \<leftarrow> sort_Slice scores (\<lambda>a b. OpportunityScore a > OpportunityScore b);
       Some (assign_ranks scores)
     }"

section \<open>Reference formulas\<close>

text \<open>
  The formulas of the specification, on real numbers, against which the normalizers are
  compared. \<open>numbers\<close> embeds a map whose values are all numbers (neither \<open>NaN\<close> nor
  infinite) into the maps of the program.
\<close>

definition numbers :: "(string \<times> real) list \<Rightarrow> float64 gomap" where
  "numbers m = map (\<lambda>(k, x). (k, Fin x)) m"

definition mean_r :: "real list \<Rightarrow> real" where
  "mean_r xs = sum_list xs / real (length xs)"

definition sample_std :: "real list \<Rightarrow> real" where
  "sample_std xs = sqrt (sum_list (map (\<lambda>v. (v - mean_r xs)\<^sup>2) xs) / (real (length xs) - 1))"

definition population_std :: "real list \<Rightarrow> real" where
  "population_std xs = sqrt (sum_list (map (\<lambda>v. (v - mean_r xs)\<^sup>2) xs) / real (length xs))"

text \<open>
  The score of the value \<open>x\<close> for a given mean and standard deviation: \<open>50 + 15 z\<close>,
  clamped to \<open>[0, 100]\<close>, inverted for the polarity lower-is-better, rounded to two
  decimals.
\<close>

definition zscore_formula :: "real \<Rightarrow> real \<Rightarrow> bool \<Rightarrow> real \<Rightarrow> real" where
  "zscore_formula mean std higherIsBetter x =
     (let score = 50 + 15 * ((x - mean) / std);
          clamped = max 0 (min 100 score);
          oriented = (if higherIsBetter then clamped else 100 - clamped)
      in real_of_int (go_round (oriented * 100)) / 100)"

definition in_score_range :: "float64 \<Rightarrow> bool" where
  "in_score_range s = (0 \<le> s \<and> s \<le> 100)"


definition within_a_hundredth :: "float64 \<Rightarrow> float64 \<Rightarrow> bool" where
  "within_a_hundredth x y = (Abs (x - y) \<le> Fin (1/100))"

text \<open>
  The weighted sum of the five component scores of a score record under the weights \<open>w\<close>,
  and the records whose five component scores are numbers.
\<close>

fun is_number :: "float64 \<Rightarrow> bool" where
  "is_number (Fin r) = True"
| "is_number x = False"

definition weighted_sum :: "float64 gomap \<Rightarrow> SectorScore \<Rightarrow> float64" where
  "weighted_sum w r =
     weight w ''momentum'' * MomentumScore r + weight w ''valuation'' * ValuationScore r
     + weight w ''growth'' * GrowthScore r + weight w ''innovation'' * InnovationScore r
     + weight w ''macro'' * MacroScore r"

definition numeric_components :: "SectorScore \<Rightarrow> bool" where
  "numeric_components r =
     (is_number (MomentumScore r) \<and> is_number (ValuationScore r) \<and> is_number (GrowthScore r)
      \<and> is_number (InnovationScore r) \<and> is_number (MacroScore r))"


text \<open>The real number that a float64 holds (0 for the special values).\<close>

fun num :: "float64 \<Rightarrow> real" where
  "num (Fin r) = r"
| "num x = 0"


section \<open>Example inputs\<close>

text \<open>The snapshot in which every data collection is empty.\<close>

definition empty_snapshot :: AllData where
  "empty_snapshot = \<lparr>SectorPrices = [], SectorInfo = [], MacroData = [], EmploymentData = [],
     RDData = [], FetchedAt = 0\<rparr>"

text \<open>The record of a sector with a given rank when every score is the neutral 50.\<close>

definition flat_record :: "string \<Rightarrow> int \<Rightarrow> SectorScore" where
  "flat_record sector rank =
     \<lparr>Sector = sector, OpportunityScore = Fin 50, Rank = rank, MomentumScore = Fin 50,
      ValuationScore = Fin 50, GrowthScore = Fin 50, InnovationScore = Fin 50,
      MacroScore = Fin 50, PriceReturn3Mo = None, PriceReturn6Mo = None,
      PriceReturn12Mo = None, RelativeStrength = None, ForwardPE = None,
      EmploymentGrowth = None, RDIntensity = None\<rparr>"

definition flat_scores :: "SectorScore list" where
  "flat_scores = map (\<lambda>(i, sector). flat_record sector (int i + 1)) (enumerate 0 SectorNames)"

definition zero_weights :: "float64 gomap" where
  "zero_weights = [(''momentum'', Fin 0), (''valuation'', Fin 0), (''growth'', Fin 0),
     (''innovation'', Fin 0), (''macro'', Fin 0)]"

text \<open>
  A snapshot as the fetchers leave it when most requests fail: the sector information
  has the forward P/E of one sector only, the R&D data covers three sectors, and there
  are no prices, macro series or employment series.
\<close>

definition no_info :: SectorInfo where
  "no_info = \<lparr>SectorInfo.ForwardPE = None, TrailingPE = None, DividendYield = None,
     AvgVolume = None, MarketCap = None\<rparr>"

definition partial_snapshot :: AllData where
  "partial_snapshot =
     \<lparr>SectorPrices = [],
      SectorInfo =
        [(''Information Technology'', no_info),
         (''Financials'', no_info\<lparr>SectorInfo.ForwardPE := Some (Fin 15)\<rparr>),
         (''Energy'', no_info), (''Health Care'', no_info),
         (''Consumer Discretionary'', no_info), (''Consumer Staples'', no_info),
         (''Industrials'', no_info), (''Materials'', no_info), (''Utilities'', no_info),
         (''Real Estate'', no_info), (''Communication Services'', no_info)],
      MacroData = [],
      EmploymentData = [],
      RDData = [(''Information Technology'', Fin (1/10)), (''Energy'', Fin (3/10)),
                (''Health Care'', Fin (2/10))],
      FetchedAt = 0\<rparr>"


section \<open>Rounding\<close>

lemma go_round_close: "\<bar>real_of_int (go_round x) - x\<bar> \<le> 1/2"
proof (cases "0 \<le> x")
  case True
  then have g: "go_round x = \<lfloor>x + 1/2\<rfloor>" by (simp add: go_round_def)
  have "real_of_int \<lfloor>x + 1/2\<rfloor> \<le> x + 1/2" "x + 1/2 < real_of_int \<lfloor>x + 1/2\<rfloor> + 1"
    by linarith+
  then show ?thesis unfolding g by linarith
next
  case False
  then have g: "go_round x = - \<lfloor>- x + 1/2\<rfloor>" by (simp add: go_round_def)
  have "real_of_int \<lfloor>- x + 1/2\<rfloor> \<le> - x + 1/2" "- x + 1/2 < real_of_int \<lfloor>- x + 1/2\<rfloor> + 1"
    by linarith+
  then show ?thesis unfolding g of_int_minus by linarith
qed

lemma go_round_mono: "x \<le> y \<Longrightarrow> go_round x \<le> go_round y"
  unfolding go_round_def by (auto; linarith)

lemma go_round_of_int [simp]: "go_round (of_int n) = n"
  unfolding go_round_def by (auto; linarith)




section \<open>The normalizers on maps of numbers\<close>

lemma snd_numbers: "map snd (numbers m) = map Fin (map snd m)"
  by (simp add: numbers_def comp_def case_prod_beta)

lemma numbers_Nil [simp]: "(numbers m = []) = (m = [])"
  by (simp add: numbers_def)

lemma minmax_loop_Fin:
  "minmax_loop (map Fin xs) False (Fin a) (Fin b) =
     (Fin (Min (insert a (set xs))), Fin (Max (insert b (set xs))))"
proof (induction xs arbitrary: a b)
  case Nil
  show ?case by simp
next
  case (Cons x xs)
  have 1: "Min (insert (if x < a then x else a) (set xs)) = Min (insert a (insert x (set xs)))"
    by (cases "set xs = {}") (auto simp: min_def)
  have 2: "Max (insert (if b < x then x else b) (set xs)) = Max (insert b (insert x (set xs)))"
    by (cases "set xs = {}") (auto simp: max_def)
  show ?case
    using Cons.IH [of "if x < a then x else a" "if b < x then x else b"] 1 2
    by (simp add: if_distrib [of Fin] cong: if_cong)
qed

lemma minmax_loop_first:
  "minmax_loop (map Fin (x # xs)) True u v = (Fin (Min (set (x # xs))), Fin (Max (set (x # xs))))"
  by (simp add: minmax_loop_Fin)

lemma NormalizeScore_numbers:
  assumes "m \<noteq> []"
  shows "NormalizeScore (numbers m) higherIsBetter =
     (if Max (snd ` set m) = Min (snd ` set m) then map (\<lambda>(k, x). (k, Fin 50)) m
      else map (\<lambda>(k, x). (k,
        let s = Fin ((x - Min (snd ` set m)) / (Max (snd ` set m) - Min (snd ` set m)) * 100)
        in Round ((if higherIsBetter then s else 100 - s) * 100) / 100)) m)"
proof -
  from assms obtain e es where m: "m = e # es" by (cases m) auto
  have mm: "minmax_loop (map snd (numbers m)) True u v =
      (Fin (Min (snd ` set m)), Fin (Max (snd ` set m)))" for u v
    unfolding snd_numbers m using minmax_loop_first [of "snd e" "map snd es"] by simp
  have 1: "NormalizeScore (numbers m) higherIsBetter =
     (if Max (snd ` set m) = Min (snd ` set m) then map (\<lambda>(k, x). (k, 50)) (numbers m)
      else map (\<lambda>(k, x). (k,
        let s = (x - Fin (Min (snd ` set m))) / (Fin (Max (snd ` set m)) - Fin (Min (snd ` set m))) * 100
        in Round ((if higherIsBetter then s else 100 - s) * 100) / 100)) (numbers m))"
    using assms by (cases higherIsBetter) (simp_all add: NormalizeScore_def mm Let_def)
  show ?thesis
    unfolding 1 by (simp add: numbers_def case_prod_beta comp_def Let_def)
qed

lemma sum_list_Fin: "sum_list (map Fin xs) = Fin (sum_list xs)"
  by (induction xs) simp_all

lemma Mean_Fin: "xs \<noteq> [] \<Longrightarrow> Mean (map Fin xs) = Fin (sum_list xs / real (length xs))"
  by (simp add: Mean_def sum_list_Fin)

lemma sum_dev_zero: "xs \<noteq> [] \<Longrightarrow> sum_list (map (\<lambda>v. v - mean_r xs) xs) = 0"
proof -
  assume "xs \<noteq> []"
  have "sum_list (map (\<lambda>v. v - c) xs) = sum_list xs - real (length xs) * c" for c
    by (induction xs) (simp_all add: algebra_simps)
  then show ?thesis using \<open>xs \<noteq> []\<close> by (simp add: mean_r_def)
qed

lemma Variance_Fin:
  assumes "2 \<le> length xs"
  shows "Variance (map Fin xs) =
    Fin (sum_list (map (\<lambda>v. (v - mean_r xs)\<^sup>2) xs) / (real (length xs) - 1))"
proof -
  from assms have ne: "xs \<noteq> []" by auto
  have m: "Mean (map Fin xs) = Fin (mean_r xs)"
    using ne by (simp add: Mean_Fin mean_r_def)
  have "sum_list (map ((\<lambda>v. (v - Fin c) * (v - Fin c)) \<circ> Fin) xs)
      = Fin (sum_list (map (\<lambda>v. (v - c)\<^sup>2) xs))" for c
    by (induction xs) (simp_all add: power2_eq_square)
  then have ss: "sum_list (map ((\<lambda>v. (v - Fin (mean_r xs)) * (v - Fin (mean_r xs))) \<circ> Fin) xs)
      = Fin (sum_list (map (\<lambda>v. (v - mean_r xs)\<^sup>2) xs))" .
  have cc: "sum_list (map ((\<lambda>v. v - Fin (mean_r xs)) \<circ> Fin) xs) = Fin 0"
    using sum_dev_zero [OF ne] sum_list_Fin [of "map (\<lambda>v. v - mean_r xs) xs"]
    by (simp add: comp_def)
  from assms have n1: "real (length xs) - 1 \<noteq> 0" by simp
  show ?thesis
    using ne n1 by (simp add: Variance_def m ss cc Let_def)
qed

lemma StdDev_Fin:
  assumes "2 \<le> length xs"
  shows "StdDev (map Fin xs) = Fin (sample_std xs)"
proof -
  have "0 \<le> sum_list (map (\<lambda>v. (v - mean_r xs)\<^sup>2) xs)"
    by (rule sum_list_nonneg) auto
  moreover from assms have "0 < real (length xs) - 1" by simp
  ultimately have "0 \<le> sum_list (map (\<lambda>v. (v - mean_r xs)\<^sup>2) xs) / (real (length xs) - 1)"
    by simp
  then show ?thesis
    by (simp add: StdDev_def Variance_Fin [OF assms] sample_std_def)
qed

lemma two_values_length:
  assumes "a \<in> set xs" "b \<in> set xs" "a \<noteq> b"
  shows "2 \<le> length xs"
proof (rule ccontr)
  assume "\<not> 2 \<le> length xs"
  then have "length xs \<le> 1" by simp
  then have "card (set xs) \<le> 1" using card_length [of xs] by linarith
  moreover have "card {a, b} \<le> card (set xs)"
    using assms by (intro card_mono) auto
  ultimately show False using assms by simp
qed

lemma sample_std_pos:
  assumes "a \<in> set xs" "b \<in> set xs" "a \<noteq> b"
  shows "0 < sample_std xs"
proof -
  from assms obtain c where c: "c \<in> set xs" "c \<noteq> mean_r xs"
    by (cases "a = mean_r xs") auto
  have len: "2 \<le> length xs" by (rule two_values_length [OF assms])
  have nonneg: "\<And>x. x \<in> set (map (\<lambda>v. (v - mean_r xs)\<^sup>2) xs) \<Longrightarrow> 0 \<le> x" by auto
  have "(c - mean_r xs)\<^sup>2 \<in> set (map (\<lambda>v. (v - mean_r xs)\<^sup>2) xs)"
    using c by auto
  then have "(c - mean_r xs)\<^sup>2 \<le> sum_list (map (\<lambda>v. (v - mean_r xs)\<^sup>2) xs)"
    using nonneg by (meson member_le_sum_list)
  moreover have "0 < (c - mean_r xs)\<^sup>2" using c by simp
  ultimately have "0 < sum_list (map (\<lambda>v. (v - mean_r xs)\<^sup>2) xs)" by linarith
  moreover from len have "0 < real (length xs) - 1" by simp
  ultimately show ?thesis by (simp add: sample_std_def)
qed

lemma zscore_entry:
  assumes "std \<noteq> 0"
  shows "(let z = (Fin x - Fin mean) / Fin std;
             score = 50 + (z * 15);
             score = (if score < 0 then 0 else score);
             score = (if score > 100 then 100 else score);
             score = (if \<not> hib then 100 - score else score)
         in Round (score * 100) / 100) = Fin (zscore_formula mean std hib x)"
proof -
  define s where "s = 50 + 15 * ((x - mean) / std)"
  have z: "(Fin x - Fin mean) / Fin std = Fin ((x - mean) / std)"
    using assms by simp
  have sc: "50 + Fin ((x - mean) / std) * 15 = Fin s"
    by (simp add: s_def mult.commute)
  have f: "zscore_formula mean std hib x =
      real_of_int (go_round ((if hib then max 0 (min 100 s) else 100 - max 0 (min 100 s)) * 100)) / 100"
    unfolding zscore_formula_def Let_def s_def ..
  consider "s < 0" | "0 \<le> s" "s \<le> 100" | "100 < s" by linarith
  then show ?thesis
  proof cases
    case 1
    then show ?thesis unfolding Let_def z sc f by simp
  next
    case 2
    then show ?thesis unfolding Let_def z sc f by simp
  next
    case 3
    then show ?thesis unfolding Let_def z sc f by simp
  qed
qed

lemma NormalizeScoreZScore_numbers:
  assumes "2 \<le> length m"
  shows "NormalizeScoreZScore (numbers m) higherIsBetter =
     (if sample_std (map snd m) = 0 then map (\<lambda>(k, x). (k, Fin 50)) m
      else map (\<lambda>(k, x). (k, Fin (zscore_formula (mean_r (map snd m)) (sample_std (map snd m))
                                   higherIsBetter x))) m)"
proof -
  let ?xs = "map snd m"
  from assms have ne: "m \<noteq> []" by auto
  from assms have len: "2 \<le> length ?xs" by simp
  have mean: "Mean (map Fin ?xs) = Fin (mean_r ?xs)"
    using ne Mean_Fin [of ?xs] by (simp add: mean_r_def)
  have std: "StdDev (map Fin ?xs) = Fin (sample_std ?xs)"
    by (rule StdDev_Fin [OF len])
  show ?thesis
  proof (cases "sample_std ?xs = 0")
    case True
    then show ?thesis
      unfolding NormalizeScoreZScore_def snd_numbers mean std Let_def
      using ne by (simp add: numbers_def case_prod_beta comp_def)
  next
    case False
    then show ?thesis
      unfolding NormalizeScoreZScore_def snd_numbers mean std Let_def
      using ne zscore_entry [of "sample_std ?xs", unfolded Let_def]
      by (simp add: numbers_def case_prod_beta comp_def)
  qed
qed

lemma NormalizeScoreZScore_single: "NormalizeScoreZScore [(k, Fin x)] higherIsBetter = [(k, NaN)]"
  by (simp add: NormalizeScoreZScore_def Mean_def StdDev_def Variance_def)

lemma keys_NormalizeScore: "map fst (NormalizeScore values higherIsBetter) = map fst values"
  by (simp add: NormalizeScore_def case_prod_beta comp_def Let_def split: prod.splits)

lemma keys_NormalizeScoreZScore:
  "map fst (NormalizeScoreZScore values higherIsBetter) = map fst values"
  by (simp add: NormalizeScoreZScore_def case_prod_beta comp_def Let_def)

section \<open>Claims about the normalizers\<close>

lemma round_in_range:
  assumes "0 \<le> c" "c \<le> 100"
  shows "in_score_range (Round (Fin c * 100) / 100)"
proof -
  have "go_round (real_of_int 0) \<le> go_round (c * 100)"
    using assms by (intro go_round_mono) simp
  moreover have "go_round (c * 100) \<le> go_round (real_of_int 10000)"
    using assms by (intro go_round_mono) simp
  ultimately have "0 \<le> go_round (c * 100)" "go_round (c * 100) \<le> 10000"
    unfolding go_round_of_int by simp_all
  then have "0 \<le> real_of_int (go_round (c * 100))" "real_of_int (go_round (c * 100)) \<le> 10000"
    by linarith+
  then show ?thesis by (simp add: in_score_range_def)
qed

lemma zscore_formula_range: "in_score_range (Fin (zscore_formula mean std higherIsBetter x))"
proof -
  define c where "c = max 0 (min 100 (50 + 15 * ((x - mean) / std)))"
  have c: "0 \<le> c" "c \<le> 100" by (simp_all add: c_def)
  then have c': "0 \<le> 100 - c" "100 - c \<le> 100" by simp_all
  have t: "zscore_formula mean std True x = real_of_int (go_round (c * 100)) / 100"
    and f: "zscore_formula mean std False x = real_of_int (go_round ((100 - c) * 100)) / 100"
    unfolding zscore_formula_def Let_def c_def by simp_all
  show ?thesis
  proof (cases higherIsBetter)
    case True
    with round_in_range [OF c] show ?thesis by (simp add: t)
  next
    case False
    with round_in_range [OF c'] show ?thesis by (simp add: f)
  qed
qed

lemma in_score_range_50: "in_score_range (Fin 50)"
  by (simp add: in_score_range_def)

text \<open>
  Where the claim C3 does hold: both normalizers keep the keys of their input
  (\<open>keys_NormalizeScore\<close>, \<open>keys_NormalizeScoreZScore\<close>); on every map of numbers the
  min-max normalizer returns scores in \<open>[0, 100]\<close>, and so does the z-score normalizer
  when the map has at least two entries.
\<close>

lemma NormalizeScore_range:
  "\<forall>e \<in> set (NormalizeScore (numbers m) higherIsBetter). in_score_range (snd e)"
proof (cases "m = []")
  case True
  then show ?thesis by (simp add: NormalizeScore_def numbers_def)
next
  case ne: False
  define lo where "lo = Min (snd ` set m)"
  define hi where "hi = Max (snd ` set m)"
  show ?thesis
  proof (cases "hi = lo")
    case True
    then show ?thesis
      unfolding NormalizeScore_numbers [OF ne] lo_def [symmetric] hi_def [symmetric]
      by (auto simp: in_score_range_50)
  next
    case False
    have r: "in_score_range (Round (Fin ((snd e - lo) / (hi - lo) * 100) * 100) / 100)
           \<and> in_score_range (Round ((100 - Fin ((snd e - lo) / (hi - lo) * 100)) * 100) / 100)"
      if "e \<in> set m" for e
    proof -
      from that have "lo \<le> snd e" "snd e \<le> hi" unfolding lo_def hi_def by simp_all
      with False have d: "0 \<le> snd e - lo" "snd e - lo \<le> hi - lo" "0 < hi - lo"
        by simp_all
      define q where "q = (snd e - lo) / (hi - lo)"
      define c where "c = q * 100"
      have "0 \<le> q" "q \<le> 1"
        unfolding q_def using d by (simp_all add: divide_le_eq_1)
      then have c: "0 \<le> c" "c \<le> 100" unfolding c_def by simp_all
      then have c': "0 \<le> 100 - c" "100 - c \<le> 100" by simp_all
      from round_in_range [OF c] round_in_range [OF c'] show ?thesis
        unfolding c_def q_def by simp
    qed
    show ?thesis
      unfolding NormalizeScore_numbers [OF ne] lo_def [symmetric] hi_def [symmetric]
      using False r
      by (cases higherIsBetter)
        (auto simp: Let_def simp del: float64_arith numeral_float64)
  qed
qed


lemma NormalizeScoreZScore_range:
  assumes "2 \<le> length m"
  shows "\<forall>e \<in> set (NormalizeScoreZScore (numbers m) higherIsBetter). in_score_range (snd e)"
  unfolding NormalizeScoreZScore_numbers [OF assms]
  by (auto simp: zscore_formula_range in_score_range_50)

text \<open>
  Claim C3: for every non-empty raw metric map and either polarity, both normalizers
  return one score per key of the input, each in \<open>[0, 100]\<close>. The code breaks it: on a
  map with a single entry the sample variance that \<^verbatim>\<open>stat.StdDev\<close> takes the root of is
  \<open>0 / 0\<close>, the test \<^verbatim>\<open>std == 0\<close> fails on \<open>NaN\<close>, and the score returned is \<open>NaN\<close>, which is
  not in \<open>[0, 100]\<close>.
\<close>

theorem zscore_single_entry_out_of_range:
  "map snd (NormalizeScoreZScore [(''Energy'', Fin 5)] higherIsBetter) = [NaN]
   \<and> \<not> in_score_range NaN"
  by (simp add: NormalizeScoreZScore_def Mean_def StdDev_def Variance_def in_score_range_def
      less_eq_float64_def)

text \<open>
  Where the claim C4 does hold: on a map of equal numbers the min-max normalizer returns
  50 for every key, and so does the z-score normalizer when the map has at least two
  entries.
\<close>

lemma all_equal:
  assumes "\<forall>e \<in> set m. snd e = c" "m \<noteq> []"
  shows "snd ` set m = {c}" and "mean_r (map snd m) = c" and "sample_std (map snd m) = 0"
proof -
  from assms show s: "snd ` set m = {c}" by (cases m) auto
  have m: "map snd m = replicate (length m) c"
    using assms(1) by (induction m) simp_all
  from assms(2) show mean: "mean_r (map snd m) = c"
    unfolding mean_r_def m by (simp add: sum_list_replicate)
  have "map (\<lambda>v. (v - c)\<^sup>2) (map snd m) = replicate (length m) 0"
    unfolding m by simp
  then show "sample_std (map snd m) = 0"
    unfolding sample_std_def mean by (simp add: sum_list_replicate del: map_map)
qed

lemma NormalizeScore_all_equal:
  assumes "\<forall>e \<in> set m. snd e = c" "m \<noteq> []"
  shows "NormalizeScore (numbers m) higherIsBetter = map (\<lambda>(k, x). (k, Fin 50)) m"
  unfolding NormalizeScore_numbers [OF assms(2)] all_equal(1) [OF assms] by simp

lemma NormalizeScoreZScore_all_equal:
  assumes "\<forall>e \<in> set m. snd e = c" "2 \<le> length m"
  shows "NormalizeScoreZScore (numbers m) higherIsBetter = map (\<lambda>(k, x). (k, Fin 50)) m"
proof -
  from assms(2) have "m \<noteq> []" by auto
  from all_equal(3) [OF assms(1) this] show ?thesis
    unfolding NormalizeScoreZScore_numbers [OF assms(2)] by simp
qed

text \<open>
  Claim C4: when all values of a non-empty map are equal, both normalizers return exactly
  50 for every key. The min-max normalizer does; the z-score normalizer returns \<open>NaN\<close> on a
  map with a single entry (whose values are trivially all equal), for the reason given
  at C3.
\<close>

theorem zscore_single_entry_not_neutral:
  "NormalizeScore [(''A'', Fin 10)] higherIsBetter = [(''A'', Fin 50)]
   \<and> NormalizeScoreZScore [(''A'', Fin 10)] higherIsBetter = [(''A'', NaN)]"
  by (simp add: NormalizeScore_def NormalizeScoreZScore_def Mean_def StdDev_def Variance_def)

text \<open>
  Claim C5, amended: on a map of numbers with at least two distinct values the z-score
  normalizer returns, for every entry, \<open>50 + 15 (x - mean) / std\<close> clamped to \<open>[0, 100]\<close>,
  inverted for lower-is-better and rounded to two decimals, where \<open>std\<close> is the sample
  standard deviation (divisor \<open>n - 1\<close>), not the population standard deviation.
\<close>

theorem NormalizeScoreZScore_sample_formula:
  assumes "a \<in> snd ` set m" "b \<in> snd ` set m" "a \<noteq> b"
  shows "NormalizeScoreZScore (numbers m) higherIsBetter =
         map (\<lambda>(k, x). (k, Fin (zscore_formula (mean_r (map snd m)) (sample_std (map snd m))
                                   higherIsBetter x))) m"
proof -
  from assms have "0 < sample_std (map snd m)"
    by (intro sample_std_pos [of a _ b]) auto
  moreover from assms have "2 \<le> length m"
    using two_values_length [of a "map snd m" b] by auto
  ultimately show ?thesis
    by (simp add: NormalizeScoreZScore_numbers)
qed

theorem NormalizeScoreZScore_sample_formula_witness:
  "(0::real) \<in> snd ` set [(''A'', 0), (''B'', 1), (''C'', 2)]
   \<and> (1::real) \<in> snd ` set [(''A'', 0), (''B'', 1), (''C'', 2)]
   \<and> (0::real) \<noteq> 1
   \<and> NormalizeScoreZScore (numbers [(''A'', 0), (''B'', 1), (''C'', 2)]) True =
       [(''A'', Fin 35), (''B'', Fin 50), (''C'', Fin 65)]"
  using NormalizeScoreZScore_sample_formula [of 0 "[(''A'', 0), (''B'', 1), (''C'', 2)]" 1 True]
  by (simp add: zscore_formula_def mean_r_def sample_std_def go_round_def)

text \<open>
  The claim C5 as stated, with the population standard deviation, fails on the values
  0, 1, 2: the code scores the value 2 at 65, the population formula above 66.
\<close>

theorem NormalizeScoreZScore_population_counterexample:
  "NormalizeScoreZScore (numbers [(''A'', 0), (''B'', 1), (''C'', 2)]) True \<noteq>
   map (\<lambda>(k, x). (k, Fin (zscore_formula (mean_r [0, 1, 2]) (population_std [0, 1, 2]) True x)))
     [(''A'', 0), (''B'', 1), (''C'', 2)]"
proof -
  have len: "2 \<le> length [(''A'', 0::real), (''B'', 1), (''C'', 2)]" by simp
  have code: "NormalizeScoreZScore (numbers [(''A'', 0), (''B'', 1), (''C'', 2)]) True =
      [(''A'', Fin 35), (''B'', Fin 50), (''C'', Fin 65)]"
    unfolding NormalizeScoreZScore_numbers [OF len]
    by (simp add: zscore_formula_def mean_r_def sample_std_def go_round_def)
  have m: "mean_r [0, 1, 2] = 1" by (simp add: mean_r_def)
  have "population_std [0, 1, 2] = sqrt (2/3)"
    by (simp add: population_std_def m)
  moreover have "sqrt (2/3) \<le> sqrt ((9/10)\<^sup>2)"
    by (subst real_sqrt_le_iff) (simp add: power2_eq_square)
  moreover have "0 < sqrt (2/3 :: real)" by simp
  ultimately have p: "0 < population_std [0, 1, 2]" "population_std [0, 1, 2] \<le> 9/10"
    by simp_all
  then have "1 / (9/10) \<le> 1 / population_std [0, 1, 2]"
    by (intro divide_left_mono) simp_all
  then have s: "66 \<le> 50 + 15 * ((2 - 1) / population_std [0, 1, 2])" by simp
  have "6600 \<le> max 0 (min 100 (50 + 15 * ((2 - 1) / population_std [0, 1, 2]))) * 100"
    using s by (simp add: max_def min_def)
  then have "go_round 6600 \<le>
      go_round (max 0 (min 100 (50 + 15 * ((2 - 1) / population_std [0, 1, 2]))) * 100)"
    by (rule go_round_mono)
  then have "6600 \<le>
      go_round (max 0 (min 100 (50 + 15 * ((2 - 1) / population_std [0, 1, 2]))) * 100)"
    using go_round_of_int [of 6600] by simp
  then have "zscore_formula (mean_r [0, 1, 2]) (population_std [0, 1, 2]) True 2 \<noteq> 65"
    unfolding zscore_formula_def Let_def m by simp
  then show ?thesis unfolding code by simp
qed







section \<open>No calculator panics\<close>

text \<open>
  Every index and slice expression of the calculators is guarded by a length test, so
  each calculator returns a result on every input: none is \<open>None\<close>.
\<close>

lemma go_index_Some: "0 \<le> i \<Longrightarrow> i < len xs \<Longrightarrow> go_index xs i = Some (xs ! nat i)"
  by (simp add: go_index_def)

lemma sectorReturns_loop_total:
  "\<forall>m \<in> set ms. 0 < m \<Longrightarrow> \<exists>r. sectorReturns_loop series ms acc = Some r"
proof (induction ms arbitrary: acc)
  case Nil
  show ?case by simp
next
  case (Cons m ms)
  then have m: "0 < m" and rest: "\<And>acc. \<exists>r. sectorReturns_loop series ms acc = Some r"
    by simp_all
  show ?case
  proof (cases "m * 21 \<le> len series")
    case True
    with m have "go_index series (len series - m * 21) = Some (series ! nat (len series - m * 21))"
      and "go_index series (len series - 1) = Some (series ! nat (len series - 1))"
      by (intro go_index_Some; linarith)+
    with True rest show ?thesis by (simp add: Let_def)
  next
    case False
    with rest show ?thesis by (simp add: Let_def)
  qed
qed

lemma CalculatePriceReturns_total: "\<exists>r. CalculatePriceReturns prices = Some r"
proof -
  have "\<exists>r. CalculatePriceReturns_loop prices acc = Some r" for acc
  proof (induction prices arbitrary: acc)
    case Nil
    show ?case by simp
  next
    case (Cons p prices)
    obtain sector series where p: "p = (sector, series)" by (cases p)
    obtain sr where sr: "sectorReturns_loop series MomentumPeriods [] = Some sr"
      using sectorReturns_loop_total [of MomentumPeriods series "[]"]
      by (auto simp: MomentumPeriods_def)
    show ?case using Cons.IH by (simp add: p sr)
  qed
  then show ?thesis by (simp add: CalculatePriceReturns_def)
qed

lemma CalculateRelativeStrength_loop_total:
  "0 < tradingDays \<Longrightarrow> \<exists>r. CalculateRelativeStrength_loop prices tradingDays b acc = Some r"
proof (induction prices arbitrary: acc)
  case Nil
  show ?case by simp
next
  case (Cons p prices)
  obtain sector series where p: "p = (sector, series)" by (cases p)
  show ?case
  proof (cases "sector = ''_benchmark'' \<or> len series < tradingDays")
    case True
    then show ?thesis using Cons by (auto simp: p)
  next
    case False
    with Cons.prems
    have "go_index series (len series - 1) = Some (series ! nat (len series - 1))"
      and "go_index series (len series - tradingDays) = Some (series ! nat (len series - tradingDays))"
      by (intro go_index_Some; linarith)+
    with False Cons show ?thesis by (simp add: p Let_def)
  qed
qed

lemma CalculateRelativeStrength_total:
  "0 < periodMonths \<Longrightarrow> \<exists>r. CalculateRelativeStrength prices periodMonths = Some r"
proof -
  assume pos: "0 < periodMonths"
  show ?thesis
  proof (cases "map_of prices ''_benchmark''")
    case None
    then show ?thesis by (simp add: CalculateRelativeStrength_def)
  next
    case (Some bs)
    show ?thesis
    proof (cases "len bs = 0 \<or> len bs < periodMonths * 21")
      case True
      then show ?thesis by (auto simp: CalculateRelativeStrength_def Some Let_def)
    next
      case False
      with pos
      have "go_index bs (len bs - 1) = Some (bs ! nat (len bs - 1))"
        and "go_index bs (len bs - periodMonths * 21) = Some (bs ! nat (len bs - periodMonths * 21))"
        by (intro go_index_Some; linarith)+
      moreover from pos have "0 < periodMonths * 21" by simp
      ultimately show ?thesis
        using False CalculateRelativeStrength_loop_total [of "periodMonths * 21" prices]
        by (simp add: CalculateRelativeStrength_def Some Let_def)
    qed
  qed
qed

lemma sumVolume_total: "0 \<le> i \<Longrightarrow> \<exists>r. sumVolume series i acc = Some r"
proof (induction series i acc rule: sumVolume.induct)
  case (1 series i volumeSum)
  show ?case
  proof (cases "i < len series")
    case True
    with "1.prems" have g: "go_index series i = Some (series ! nat i)"
      by (simp add: go_index_def)
    from "1.IH" [OF True g] "1.prems" obtain r where
      "sumVolume series (i + 1) (volumeSum + Volume (series ! nat i)) = Some r" by auto
    with True g show ?thesis by (subst sumVolume.simps) simp
  next
    case False
    then show ?thesis by (subst sumVolume.simps) simp
  qed
qed

lemma CalculateVolumeTrend_total:
  assumes "0 < shortPeriod" "shortPeriod \<le> longPeriod"
  shows "\<exists>r. CalculateVolumeTrend prices shortPeriod longPeriod = Some r"
proof -
  have "\<exists>r. CalculateVolumeTrend_loop prices shortPeriod longPeriod acc = Some r" for acc
  proof (induction prices arbitrary: acc)
    case Nil
    show ?case by simp
  next
    case (Cons p prices)
    obtain sector series where p: "p = (sector, series)" by (cases p)
    show ?case
    proof (cases "sector = ''_benchmark'' \<or> len series < longPeriod")
      case True
      then show ?thesis using Cons by (auto simp: p)
    next
      case False
      with assms have "0 \<le> len series - shortPeriod" "0 \<le> len series - longPeriod"
        by simp_all
      then obtain a b where "sumVolume series (len series - shortPeriod) 0 = Some a"
        "sumVolume series (len series - longPeriod) 0 = Some b"
        using sumVolume_total by blast
      with False Cons show ?thesis by (simp add: p Let_def)
    qed
  qed
  then show ?thesis by (simp add: CalculateVolumeTrend_def)
qed

lemma CalculateMomentumScore_total: "\<exists>r. CalculateMomentumScore prices = Some r"
proof -
  obtain a where a: "CalculatePriceReturns prices = Some a"
    using CalculatePriceReturns_total by blast
  obtain b where b: "CalculateRelativeStrength prices 12 = Some b"
    using CalculateRelativeStrength_total [of 12] by auto
  obtain c where c: "CalculateVolumeTrend prices 20 50 = Some c"
    using CalculateVolumeTrend_total [of 20 50] by auto
  show ?thesis by (simp add: CalculateMomentumScore_def a b c)
qed

lemma CalculateEmploymentGrowth_total: "\<exists>r. CalculateEmploymentGrowth employment = Some r"
proof -
  have "\<exists>r. CalculateEmploymentGrowth_loop employment acc = Some r" for acc
  proof (induction employment arbitrary: acc)
    case Nil
    show ?case by simp
  next
    case (Cons p employment)
    obtain sector ts where p: "p = (sector, ts)" by (cases p)
    show ?case
    proof (cases "len (Values ts) < 13")
      case True
      then show ?thesis using Cons by (simp add: p)
    next
      case False
      then have "go_index (Values ts) (len (Values ts) - 1) = Some (Values ts ! nat (len (Values ts) - 1))"
        and "go_index (Values ts) (len (Values ts) - 13) = Some (Values ts ! nat (len (Values ts) - 13))"
        by (intro go_index_Some; linarith)+
      with False Cons show ?thesis by (simp add: p)
    qed
  qed
  then show ?thesis by (simp add: CalculateEmploymentGrowth_def)
qed

lemma CalculateGrowthScore_total: "\<exists>r. CalculateGrowthScore employment = Some r"
proof -
  obtain g where "CalculateEmploymentGrowth employment = Some g"
    using CalculateEmploymentGrowth_total by blast
  then show ?thesis by (simp add: CalculateGrowthScore_def)
qed

lemma monthlyChanges_loop_total: "1 \<le> i \<Longrightarrow> \<exists>r. monthlyChanges_loop vals i acc = Some r"
proof (induction vals i acc rule: monthlyChanges_loop.induct)
  case (1 vals i changes)
  show ?case
  proof (cases "i < len vals")
    case True
    with "1.prems" have p: "go_index vals (i - 1) = Some (vals ! nat (i - 1))"
      and c: "go_index vals i = Some (vals ! nat i)"
      by (intro go_index_Some; linarith)+
    show ?thesis
    proof (cases "feq (vals ! nat (i - 1)) 0")
      case z: True
      from "1.IH"(2) [OF True p] z "1.prems" obtain r where
        "monthlyChanges_loop vals (i + 1) changes = Some r" by auto
      with True p z show ?thesis by (subst monthlyChanges_loop.simps) simp
    next
      case nz: False
      from "1.IH"(1) [OF True p nz c] "1.prems" obtain r where
        "monthlyChanges_loop vals (i + 1)
           (changes @ [(vals ! nat i - vals ! nat (i - 1)) / vals ! nat (i - 1)]) = Some r"
        by auto
      with True p c nz show ?thesis by (subst monthlyChanges_loop.simps) simp
    qed
  next
    case False
    then show ?thesis by (subst monthlyChanges_loop.simps) simp
  qed
qed

lemma monthlyChanges_total: "\<exists>r. monthlyChanges ts = Some r"
  using monthlyChanges_loop_total [of 1 "Values ts" "[]"] by (simp add: monthlyChanges_def)

lemma monthlyReturns_loop_total: "21 \<le> i \<Longrightarrow> \<exists>r. monthlyReturns_loop series i acc = Some r"
proof (induction series i acc rule: monthlyReturns_loop.induct)
  case (1 series i returns)
  show ?case
  proof (cases "i < len series")
    case True
    with "1.prems" have p: "go_index series (i - 21) = Some (series ! nat (i - 21))"
      and c: "go_index series i = Some (series ! nat i)"
      by (intro go_index_Some; linarith)+
    show ?thesis
    proof (cases "Close (series ! nat (i - 21)) > 0")
      case pos: True
      from "1.IH"(1) [OF True p c refl refl pos] "1.prems" obtain r where
        "monthlyReturns_loop series (i + 21)
           (returns @ [(Close (series ! nat i) - Close (series ! nat (i - 21)))
                        / Close (series ! nat (i - 21))]) = Some r"
        by auto
      with True p c pos show ?thesis by (subst monthlyReturns_loop.simps) simp
    next
      case npos: False
      from "1.IH"(2) [OF True p c refl refl npos] "1.prems" obtain r where
        "monthlyReturns_loop series (i + 21) returns = Some r" by auto
      with True p c npos show ?thesis by (subst monthlyReturns_loop.simps) simp
    qed
  next
    case False
    then show ?thesis by (subst monthlyReturns_loop.simps) simp
  qed
qed

lemma monthlyReturnsFromPrices_total: "\<exists>r. monthlyReturnsFromPrices series = Some r"
  using monthlyReturns_loop_total [of 21 series "[]"] by (simp add: monthlyReturnsFromPrices_def)

lemma slice_from_suffix:
  "0 \<le> n \<Longrightarrow> n \<le> len xs \<Longrightarrow> \<exists>ys. slice_from xs (len xs - n) = Some ys \<and> len ys = n"
  by (auto simp: slice_from_def)

lemma Correlation_total: "length x = length y \<Longrightarrow> \<exists>r. Correlation x y = Some r"
  by (simp add: Correlation_def Let_def)

lemma CalculateRateSensitivity_loop_total:
  "\<exists>r. CalculateRateSensitivity_loop prices rateChanges acc = Some r"
proof (induction prices arbitrary: acc)
  case Nil
  show ?case by simp
next
  case (Cons p prices)
  obtain sector series where p: "p = (sector, series)" by (cases p)
  obtain sr where sr: "monthlyReturnsFromPrices series = Some sr"
    using monthlyReturnsFromPrices_total by blast
  define n where "n = min (len sr) (len rateChanges)"
  have "0 \<le> n" "n \<le> len sr" "n \<le> len rateChanges" by (simp_all add: n_def)
  then obtain returns rates where
    s1: "slice_from sr (len sr - n) = Some returns" "len returns = n" and
    s2: "slice_from rateChanges (len rateChanges - n) = Some rates" "len rates = n"
    using slice_from_suffix by blast
  then have "length returns = length rates" by simp
  then obtain corr where corr: "Correlation returns rates = Some corr"
    using Correlation_total by blast
  show ?case
    using Cons.IH s1(1) s2(1) corr
    by (simp add: p sr Let_def n_def [symmetric])
qed

lemma CalculateRateSensitivity_total: "\<exists>r. CalculateRateSensitivity prices interestRates = Some r"
proof -
  obtain rc where "monthlyChanges interestRates = Some rc"
    using monthlyChanges_total by blast
  then show ?thesis
    using CalculateRateSensitivity_loop_total
    by (simp add: CalculateRateSensitivity_def)
qed

lemma CalculateMacroScore_total: "\<exists>r. CalculateMacroScore prices macroData = Some r"
proof (cases "map_of macroData ''treasury_10y''")
  case None
  then show ?thesis by (simp add: CalculateMacroScore_def)
next
  case (Some interestRates)
  obtain s where "CalculateRateSensitivity prices interestRates = Some s"
    using CalculateRateSensitivity_total by blast
  then show ?thesis by (simp add: CalculateMacroScore_def Some)
qed

section \<open>Claims about the composite scorer\<close>

lemma mset_insert_left: "mset (insert_left lessFn x ys) = add_mset x (mset ys)"
  by (induction ys) simp_all

lemma mset_insertionSort: "mset (insertionSort lessFn xs) = mset xs"
proof -
  have "mset (foldl (\<lambda>prefix x. insert_left lessFn x prefix) acc xs) = mset acc + mset xs" for acc
    by (induction xs arbitrary: acc) (simp_all add: mset_insert_left)
  then show ?thesis by (simp add: insertionSort_def)
qed

lemma length_insertionSort: "length (insertionSort lessFn xs) = length xs"
  using mset_insertionSort [of lessFn xs] by (metis size_mset)

lemma set_insertionSort: "set (insertionSort lessFn xs) = set xs"
  using mset_insertionSort [of lessFn xs] by (metis set_mset_mset)

lemma assign_ranks_alt:
  "assign_ranks scores = map (\<lambda>i. (scores ! i)\<lparr>Rank := int i + 1\<rparr>) [0..<length scores]"
  by (rule nth_equalityI) (simp_all add: assign_ranks_def nth_enumerate_eq)

lemma length_assign_ranks [simp]: "length (assign_ranks scores) = length scores"
  by (simp add: assign_ranks_alt)

lemma Rank_assign_ranks: "map Rank (assign_ranks scores) = map (\<lambda>i. int i + 1) [0..<length scores]"
  by (simp add: assign_ranks_alt)

lemma Sector_assign_ranks: "map Sector (assign_ranks scores) = map Sector scores"
  by (rule nth_equalityI) (simp_all add: assign_ranks_alt)

lemma in_assign_ranks:
  "r \<in> set (assign_ranks scores) \<Longrightarrow> \<exists>r0 \<in> set scores. \<exists>i. r = r0\<lparr>Rank := i\<rparr>"
  by (auto simp: assign_ranks_alt)

lemma CalculateScores_structure:
  "\<exists>ms gs mc pr rs eg.
     CalculateScores s allData =
       Some (assign_ranks (insertionSort (\<lambda>a b. OpportunityScore a > OpportunityScore b)
         (map (sector_score s allData ms (CalculateValuationScore [] (SectorInfo allData)) gs
                 (CalculateInnovationScore (RDData allData)) mc pr rs eg) SectorNames)))"
proof -
  obtain ms where ms: "CalculateMomentumScore (SectorPrices allData) = Some ms"
    using CalculateMomentumScore_total by blast
  obtain gs where gs: "CalculateGrowthScore (EmploymentData allData) = Some gs"
    using CalculateGrowthScore_total by blast
  obtain mc where mc: "CalculateMacroScore (SectorPrices allData) (MacroData allData) = Some mc"
    using CalculateMacroScore_total by blast
  obtain pr where pr: "CalculatePriceReturns (SectorPrices allData) = Some pr"
    using CalculatePriceReturns_total by blast
  obtain rs where rs: "CalculateRelativeStrength (SectorPrices allData) 12 = Some rs"
    using CalculateRelativeStrength_total [of 12] by auto
  obtain eg where eg: "CalculateEmploymentGrowth (EmploymentData allData) = Some eg"
    using CalculateEmploymentGrowth_total by blast
  have "length SectorNames \<le> 12" by (simp add: SectorNames_def)
  then have "CalculateScores s allData =
       Some (assign_ranks (insertionSort (\<lambda>a b. OpportunityScore a > OpportunityScore b)
         (map (sector_score s allData ms (CalculateValuationScore [] (SectorInfo allData)) gs
                 (CalculateInnovationScore (RDData allData)) mc pr rs eg) SectorNames)))"
    by (simp add: CalculateScores_def ms gs mc pr rs eg sort_Slice_def)
  then show ?thesis by blast
qed

lemma CalculateScores_total: "\<exists>scores. CalculateScores s allData = Some scores"
  using CalculateScores_structure [of s allData] by blast

lemma Sector_sector_score [simp]:
  "Sector (sector_score s allData ms vs gs is mc pr rs eg sector) = sector"
  by (simp add: sector_score_def Let_def)

text \<open>
  Claim C1: for every snapshot and every weight configuration \<^verbatim>\<open>CalculateScores\<close> returns,
  without a panic, exactly one score record for each of the 11 configured sectors: the
  sectors of the records are the sector names, each once.
\<close>

theorem CalculateScores_complete:
  "\<exists>scores. CalculateScores s allData = Some scores
     \<and> length scores = 11
     \<and> mset (map Sector scores) = mset SectorNames
     \<and> distinct (map Sector scores)"
proof -
  obtain ms gs mc pr rs eg where c:
    "CalculateScores s allData =
       Some (assign_ranks (insertionSort (\<lambda>a b. OpportunityScore a > OpportunityScore b)
         (map (sector_score s allData ms (CalculateValuationScore [] (SectorInfo allData)) gs
                 (CalculateInnovationScore (RDData allData)) mc pr rs eg) SectorNames)))"
    using CalculateScores_structure by blast
  let ?raw = "map (sector_score s allData ms (CalculateValuationScore [] (SectorInfo allData)) gs
                 (CalculateInnovationScore (RDData allData)) mc pr rs eg) SectorNames"
  let ?sorted = "insertionSort (\<lambda>a b. OpportunityScore a > OpportunityScore b) ?raw"
  have len: "length (assign_ranks ?sorted) = 11"
    by (simp add: length_insertionSort SectorNames_def)
  have "mset (map Sector ?sorted) = mset (map Sector ?raw)"
    by (metis mset_map mset_insertionSort)
  also have "map Sector ?raw = SectorNames" by (simp add: comp_def)
  finally have m: "mset (map Sector (assign_ranks ?sorted)) = mset SectorNames"
    by (simp add: Sector_assign_ranks)
  have "distinct SectorNames" by (simp add: SectorNames_def)
  with m have "distinct (map Sector (assign_ranks ?sorted))"
    by (metis mset_eq_imp_distinct_iff)
  with c len m show ?thesis by blast
qed







lemma sector_score_opportunity:
  "OpportunityScore (sector_score s allData ms vs gs is mc pr rs eg sector) =
   Round (weighted_sum (Weights s) (sector_score s allData ms vs gs is mc pr rs eg sector) * 100) / 100"
  by (simp add: sector_score_def weighted_sum_def Let_def)

lemma weighted_sum_Rank [simp]: "weighted_sum w (r\<lparr>Rank := i\<rparr>) = weighted_sum w r"
  by (simp add: weighted_sum_def)

lemma numeric_components_Rank [simp]:
  "numeric_components (r\<lparr>Rank := i\<rparr>) = numeric_components r"
  by (simp add: numeric_components_def)

lemma CalculateScores_records:
  assumes "CalculateScores s allData = Some scores" "r \<in> set scores"
  shows "OpportunityScore r = Round (weighted_sum (Weights s) r * 100) / 100"
proof -
  obtain ms gs mc pr rs eg where c:
    "CalculateScores s allData =
       Some (assign_ranks (insertionSort (\<lambda>a b. OpportunityScore a > OpportunityScore b)
         (map (sector_score s allData ms (CalculateValuationScore [] (SectorInfo allData)) gs
                 (CalculateInnovationScore (RDData allData)) mc pr rs eg) SectorNames)))"
    using CalculateScores_structure by blast
  with assms obtain r0 i where r0: "r = r0\<lparr>Rank := i\<rparr>"
    "r0 \<in> set (map (sector_score s allData ms (CalculateValuationScore [] (SectorInfo allData)) gs
                 (CalculateInnovationScore (RDData allData)) mc pr rs eg) SectorNames)"
    using in_assign_ranks set_insertionSort by (metis option.inject)
  then obtain sector where "r0 = sector_score s allData ms
      (CalculateValuationScore [] (SectorInfo allData)) gs
      (CalculateInnovationScore (RDData allData)) mc pr rs eg sector"
    by auto
  then have "OpportunityScore r0 = Round (weighted_sum (Weights s) r0 * 100) / 100"
    using sector_score_opportunity by simp
  then show ?thesis by (simp add: r0(1))
qed

lemma NewSectorScorer_unit_sum:
  "foldl (+) (Fin 0) (map snd w) = Fin 1 \<Longrightarrow> NewSectorScorer (Some w) = \<lparr>Weights = w\<rparr>"
  by (simp add: NewSectorScorer_def Let_def)

lemma Round_close:
  "\<exists>y. Round (Fin x * 100) / 100 = Fin y \<and> \<bar>y - x\<bar> \<le> 1/100"
proof -
  have "\<bar>real_of_int (go_round (x * 100)) - x * 100\<bar> \<le> 1/2" by (rule go_round_close)
  then have "\<bar>real_of_int (go_round (x * 100)) / 100 - x\<bar> \<le> 1/100" by linarith
  moreover have "Round (Fin x * 100) / 100 = Fin (real_of_int (go_round (x * 100)) / 100)"
    by simp
  ultimately show ?thesis by blast
qed

text \<open>
  Where the claim C7 does hold: for weights summing to 1, a returned record whose weighted
  sum of component scores is a number has a number within 0.01 of it as its opportunity
  score.
\<close>

lemma opportunity_rounded_when_number:
  assumes "foldl (+) (Fin 0) (map snd w) = Fin 1"
    and "CalculateScores (NewSectorScorer (Some w)) allData = Some scores"
    and "r \<in> set scores"
    and "weighted_sum w r = Fin x"
  shows "\<exists>y. OpportunityScore r = Fin y \<and> \<bar>y - x\<bar> \<le> 1/100"
proof -
  have "OpportunityScore r = Round (weighted_sum w r * 100) / 100"
    using CalculateScores_records [OF assms(2,3)] NewSectorScorer_unit_sum [OF assms(1)]
    by simp
  then show ?thesis using Round_close [of x] assms(4) by simp
qed

lemma map_of_put: "map_of (put m k v) = (map_of m)(k \<mapsto> v)"
  by (induction m) (auto simp: fun_eq_iff)

lemma put_append: "k \<notin> fst ` set m \<Longrightarrow> put m k v = m @ [(k, v)]"
  by (induction m) auto

lemma foldl_put_filter:
  assumes "distinct (map fst m)" "fst ` set acc \<inter> fst ` set m = {}"
  shows "foldl (\<lambda>acc (k, v). if P v then put acc k v else acc) acc m =
         acc @ filter (\<lambda>(k, v). P v) m"
  using assms
proof (induction m arbitrary: acc)
  case Nil
  show ?case by simp
next
  case (Cons e m)
  obtain k v where e: "e = (k, v)" by (cases e)
  from Cons.prems have k: "k \<notin> fst ` set acc" "k \<notin> fst ` set m" "distinct (map fst m)"
    and d: "fst ` set acc \<inter> fst ` set m = {}"
    by (auto simp: e)
  show ?case
  proof (cases "P v")
    case True
    have "fst ` set (acc @ [(k, v)]) \<inter> fst ` set m = {}" using k d by auto
    from Cons.IH [OF k(3) this] True k(1) show ?thesis
      by (simp add: e put_append)
  next
    case False
    from Cons.IH [OF k(3) d] False show ?thesis by (simp add: e)
  qed
qed

lemma map_of_fill_loop:
  "map_of (foldl (\<lambda>scores sector. if map_of scores sector = None then put scores sector d
                                    else scores) scores names) k =
   (case map_of scores k of Some v \<Rightarrow> Some v
    | None \<Rightarrow> if k \<in> set names then Some d else None)"
  by (induction names arbitrary: scores) (auto simp: map_of_put split: option.splits)

lemma map_of_fill_missing:
  "map_of (fill_missing scores d) k =
   (case map_of scores k of Some v \<Rightarrow> Some v
    | None \<Rightarrow> if k \<in> set SectorNames then Some d else None)"
  unfolding fill_missing_def by (rule map_of_fill_loop)

lemma map_of_NormalizeScoreZScore_None:
  "k \<notin> fst ` set values \<Longrightarrow> map_of (NormalizeScoreZScore values b) k = None"
  using keys_NormalizeScoreZScore [of "values" b]
  by (metis list.set_map map_of_eq_None_iff)

lemma map_of_NormalizeScoreZScore_Some:
  "k \<in> fst ` set values \<Longrightarrow> \<exists>v. map_of (NormalizeScoreZScore values b) k = Some v"
  using keys_NormalizeScoreZScore [of "values" b]
  by (metis list.set_map map_of_eq_None_iff not_Some_eq)

text \<open>
  Claim C8, amended: the normalization input of \<^verbatim>\<open>CalculateInnovationScore\<close> is the R&D
  map without the entries whose intensity is not greater than 0. When that input is not
  empty, every sector in it has its normalized score and every other configured sector
  the default 30; when it is empty, the result is \<^verbatim>\<open>defaultScores()\<close>, which gives every
  configured sector 50.
\<close>

theorem CalculateInnovationScore_defaults:
  assumes "distinct (map fst rdData)"
  shows "let validRD = filter (\<lambda>(sector, rd). rd > 0) rdData in
         (validRD = [] \<longrightarrow> CalculateInnovationScore rdData = defaultScores) \<and>
         (validRD \<noteq> [] \<longrightarrow>
            (\<forall>sector. map_of (CalculateInnovationScore rdData) sector =
               (if sector \<in> fst ` set validRD
                then map_of (NormalizeScoreZScore validRD True) sector
                else if sector \<in> set SectorNames then Some 30 else None)))"
proof -
  let ?valid = "filter (\<lambda>(sector, rd). rd > 0) rdData"
  have v: "foldl (\<lambda>validRD (sector, rd). if rd > 0 then put validRD sector rd else validRD)
             [] rdData = ?valid"
    using foldl_put_filter [OF assms, of "[]" "\<lambda>rd. rd > 0"] by simp
  have 1: "CalculateInnovationScore rdData = defaultScores" if "?valid = []"
    unfolding CalculateInnovationScore_def v Let_def using that by simp
  have 2: "map_of (CalculateInnovationScore rdData) sector =
               (if sector \<in> fst ` set ?valid
                then map_of (NormalizeScoreZScore ?valid True) sector
                else if sector \<in> set SectorNames then Some 30 else None)"
    if ne: "?valid \<noteq> []" for sector
  proof -
    from ne have "rdData \<noteq> []" by auto
    with ne have c: "CalculateInnovationScore rdData =
        fill_missing (NormalizeScoreZScore ?valid True) 30"
      unfolding CalculateInnovationScore_def v Let_def by simp
    show ?thesis
    proof (cases "sector \<in> fst ` set ?valid")
      case True
      then obtain x where "map_of (NormalizeScoreZScore ?valid True) sector = Some x"
        using map_of_NormalizeScoreZScore_Some by blast
      with True show ?thesis by (simp add: c map_of_fill_missing)
    next
      case False
      then have "map_of (NormalizeScoreZScore ?valid True) sector = None"
        by (rule map_of_NormalizeScoreZScore_None)
      with False show ?thesis by (simp add: c map_of_fill_missing)
    qed
  qed
  show ?thesis unfolding Let_def using 1 2 by blast
qed

theorem CalculateInnovationScore_defaults_witness:
  "distinct (map fst [(''Energy'', Fin (1/100)), (''Financials'', Fin (1/100)),
                      (''Utilities'', Fin 0)])
   \<and> map_of (CalculateInnovationScore [(''Energy'', Fin (1/100)), (''Financials'', Fin (1/100)),
                      (''Utilities'', Fin 0)]) ''Utilities'' = Some (Fin 30)
   \<and> map_of (CalculateInnovationScore [(''Energy'', Fin (1/100)), (''Financials'', Fin (1/100)),
                      (''Utilities'', Fin 0)]) ''Energy'' = Some (Fin 50)"
  using CalculateInnovationScore_defaults [of "[(''Energy'', Fin (1/100)),
      (''Financials'', Fin (1/100)), (''Utilities'', Fin 0)]"]
  by (simp add: Let_def SectorNames_def NormalizeScoreZScore_def Mean_def StdDev_def
      Variance_def)

text \<open>
  The claim C8 as stated fails when no sector has a positive R&D intensity: Energy, with
  intensity 0, is excluded from the normalization input and receives 50, not 30.
\<close>

theorem CalculateInnovationScore_no_valid_counterexample:
  "map_of (CalculateInnovationScore [(''Energy'', Fin 0)]) ''Energy'' = Some (Fin 50)"
  by (simp add: CalculateInnovationScore_def defaultScores_def SectorNames_def Let_def)

section \<open>The scorer on the example inputs\<close>

lemma NewSectorScorer_default: "NewSectorScorer None = \<lparr>Weights = DefaultWeights\<rparr>"
  "NewSectorScorer (Some DefaultWeights) = \<lparr>Weights = DefaultWeights\<rparr>"
  by (simp_all add: NewSectorScorer_def DefaultWeights_def Let_def)

lemma no_prices:
  "CalculateMomentumScore [] = Some (map (\<lambda>n. (n, Fin 50)) SectorNames)"
  "CalculateGrowthScore [] = Some defaultScores"
  "CalculateMacroScore [] [] = Some defaultScores"
  "CalculatePriceReturns [] = Some []"
  "CalculateRelativeStrength [] 12 = Some []"
  "CalculateEmploymentGrowth [] = Some []"
  by (simp_all add: CalculateMomentumScore_def
     CalculatePriceReturns_def CalculateRelativeStrength_def CalculateVolumeTrend_def
     CalculateGrowthScore_def CalculateEmploymentGrowth_def
     CalculateMacroScore_def SectorNames_def
     NormalizeScoreZScore_def getOrDefault_def go_round_def Let_def)

lemma no_data:
  "CalculateValuationScore [] [] = defaultScores"
  "CalculateInnovationScore [] = defaultScores"
  by (simp_all add: CalculateValuationScore_def CalculateInnovationScore_def)

lemma empty_fields:
  "SectorPrices empty_snapshot = []" "SectorInfo empty_snapshot = []"
  "MacroData empty_snapshot = []" "EmploymentData empty_snapshot = []"
  "RDData empty_snapshot = []"
  by (simp_all add: empty_snapshot_def)

lemma CalculateScores_empty_snapshot:
  "CalculateScores \<lparr>Weights = DefaultWeights\<rparr> empty_snapshot = Some flat_scores"
  unfolding CalculateScores_def empty_fields no_prices no_data
  by (simp add: defaultScores_def SectorNames_def sector_score_def getOrDefault_def weight_def
      DefaultWeights_def sort_Slice_def insertionSort_def assign_ranks_def go_round_def Let_def
      flat_scores_def flat_record_def empty_fields)

text \<open>
  The default weights on the empty snapshot: every sector scores 50 on every signal, the
  weighted sum is 50 and so is the opportunity score.
\<close>

lemma opportunity_empty_snapshot:
  "weighted_sum DefaultWeights (flat_record ''Energy'' 3) = Fin 50
   \<and> (\<exists>y. OpportunityScore (flat_record ''Energy'' 3) = Fin y \<and> \<bar>y - 50\<bar> \<le> 1/100)"
proof -
  have h1: "foldl (+) (Fin 0) (map snd DefaultWeights) = Fin 1"
    by (simp add: DefaultWeights_def)
  have h2: "CalculateScores (NewSectorScorer (Some DefaultWeights)) empty_snapshot =
      Some flat_scores"
    by (simp add: NewSectorScorer_default CalculateScores_empty_snapshot)
  have h3: "flat_record ''Energy'' 3 \<in> set flat_scores"
    by (simp add: flat_scores_def SectorNames_def)
  have w: "weighted_sum DefaultWeights (flat_record ''Energy'' 3) = Fin 50"
    by (simp add: weighted_sum_def weight_def DefaultWeights_def flat_record_def)
  from opportunity_rounded_when_number [OF h1 h2 h3 w] w show ?thesis by blast
qed

lemma NewSectorScorer_zero_sum:
  "foldl (+) (Fin 0) (map snd w) = Fin 0 \<Longrightarrow> NewSectorScorer (Some w) = \<lparr>Weights = w\<rparr>"
  by (simp add: NewSectorScorer_def Let_def)

lemma CalculateScores_ranks:
  assumes "CalculateScores s allData = Some scores"
  shows "map Rank scores = [1, 2, 3, 4, 5, 6, 7, 8, 9, 10, 11]"
proof -
  obtain raw where "CalculateScores s allData =
      Some (assign_ranks (insertionSort (\<lambda>a b. OpportunityScore a > OpportunityScore b) raw))"
    and "length raw = length SectorNames"
    using CalculateScores_structure [of s allData] by (metis length_map)
  with assms have "scores =
      assign_ranks (insertionSort (\<lambda>a b. OpportunityScore a > OpportunityScore b) raw)"
    and "length raw = length SectorNames" by simp_all
  then have "map Rank scores = map (\<lambda>i. int i + 1) [0..<length SectorNames]"
    by (simp only: Rank_assign_ranks length_insertionSort)
  also have "\<dots> = [1, 2, 3, 4, 5, 6, 7, 8, 9, 10, 11]"
    by (simp add: SectorNames_def upt_rec)
  finally show ?thesis .
qed

lemma weight_zero:
  "\<forall>v \<in> snd ` set w. v = Fin 0 \<Longrightarrow> weight w k = Fin 0"
  by (auto simp: weight_def split: option.splits dest!: map_of_SomeD)

lemma weighted_sum_zero:
  assumes "\<forall>v \<in> snd ` set w. v = Fin 0" "numeric_components r"
  shows "weighted_sum w r = Fin 0"
proof -
  from assms(2) obtain a b c d e where
    "MomentumScore r = Fin a" "ValuationScore r = Fin b" "GrowthScore r = Fin c"
    "InnovationScore r = Fin d" "MacroScore r = Fin e"
    unfolding numeric_components_def
    by (metis is_number.elims(2))
  then show ?thesis
    by (simp add: weighted_sum_def weight_zero [OF assms(1)])
qed

text \<open>
  Where the claim C10 does hold: when the supplied weights sum to exactly 0,
  \<^verbatim>\<open>NewSectorScorer\<close> leaves them as they are, \<^verbatim>\<open>CalculateScores\<close> returns without a panic
  and the ranks are 1 to 11; when every supplied weight is 0, the opportunity score of
  every record whose five component scores are numbers is 0.
\<close>

lemma zero_weights_unchanged:
  assumes "foldl (+) (Fin 0) (map snd w) = Fin 0"
  shows "\<exists>scores. Weights (NewSectorScorer (Some w)) = w
     \<and> CalculateScores (NewSectorScorer (Some w)) allData = Some scores
     \<and> map Rank scores = [1, 2, 3, 4, 5, 6, 7, 8, 9, 10, 11]
     \<and> ((\<forall>v \<in> snd ` set w. v = Fin 0) \<longrightarrow>
          (\<forall>r \<in> set scores. numeric_components r \<longrightarrow> OpportunityScore r = Fin 0))"
proof -
  have n: "NewSectorScorer (Some w) = \<lparr>Weights = w\<rparr>"
    by (rule NewSectorScorer_zero_sum [OF assms])
  obtain scores where s: "CalculateScores \<lparr>Weights = w\<rparr> allData = Some scores"
    using CalculateScores_total by blast
  have "OpportunityScore r = Fin 0"
    if "\<forall>v \<in> snd ` set w. v = Fin 0" "r \<in> set scores" "numeric_components r" for r
    using CalculateScores_records [OF s that(2)] weighted_sum_zero [OF that(1,3)]
    by (simp add: go_round_def)
  with s CalculateScores_ranks [OF s] show ?thesis unfolding n by auto
qed

lemma CalculateScores_zero_weights:
  "map_option (map (\<lambda>r. (numeric_components r, Rank r)))
     (CalculateScores \<lparr>Weights = zero_weights\<rparr> empty_snapshot) =
   Some [(True, 1), (True, 2), (True, 3), (True, 4), (True, 5), (True, 6), (True, 7),
         (True, 8), (True, 9), (True, 10), (True, 11)]"
  unfolding CalculateScores_def empty_fields no_prices no_data
  by (simp add: defaultScores_def SectorNames_def sector_score_def getOrDefault_def weight_def
      zero_weights_def sort_Slice_def insertionSort_def assign_ranks_def go_round_def Let_def
      numeric_components_def empty_fields)

lemma zero_weights_empty_snapshot:
  "foldl (+) (Fin 0) (map snd zero_weights) = Fin 0
   \<and> Weights (NewSectorScorer (Some zero_weights)) = zero_weights
   \<and> map_option (map OpportunityScore)
         (CalculateScores (NewSectorScorer (Some zero_weights)) empty_snapshot) =
       Some (replicate 11 (Fin 0))"
proof -
  have h: "foldl (+) (Fin 0) (map snd zero_weights) = Fin 0"
    by (simp add: zero_weights_def)
  have z: "\<forall>v \<in> snd ` set zero_weights. v = Fin 0"
    by (simp add: zero_weights_def)
  from zero_weights_unchanged [OF h, of empty_snapshot] z obtain scores where
    w: "Weights (NewSectorScorer (Some zero_weights)) = zero_weights" and
    s: "CalculateScores (NewSectorScorer (Some zero_weights)) empty_snapshot = Some scores" and
    r: "map Rank scores = [1, 2, 3, 4, 5, 6, 7, 8, 9, 10, 11]" and
    o: "\<forall>r \<in> set scores. numeric_components r \<longrightarrow> OpportunityScore r = Fin 0"
    by auto
  have n: "NewSectorScorer (Some zero_weights) = \<lparr>Weights = zero_weights\<rparr>"
    by (rule NewSectorScorer_zero_sum [OF h])
  from CalculateScores_zero_weights s
  have "map (\<lambda>r. (numeric_components r, Rank r)) scores =
      [(True, 1), (True, 2), (True, 3), (True, 4), (True, 5), (True, 6), (True, 7),
       (True, 8), (True, 9), (True, 10), (True, 11)]"
    unfolding n by simp
  then have "map fst (map (\<lambda>r. (numeric_components r, Rank r)) scores) = replicate 11 True"
    by (simp add: numeral_eq_Suc)
  then have nc: "map numeric_components scores = replicate 11 True"
    by (simp add: comp_def)
  then have "\<forall>r \<in> set scores. numeric_components r"
    by (metis (full_types) in_set_replicate list.set_map imageI)
  with o have "\<forall>r \<in> set scores. OpportunityScore r = Fin 0" by blast
  then have "map OpportunityScore scores = replicate (length scores) (Fin 0)"
    by (simp add: map_replicate_const [symmetric] cong: map_cong)
  moreover from nc have "length scores = 11" by (metis length_map length_replicate)
  ultimately show ?thesis using h w s by simp
qed

lemma sqrt_100: "sqrt 100 = 10"
  using real_sqrt_abs [of 10] by simp

lemma valuation_partial_snapshot:
  "CalculateValuationScore [] (SectorInfo partial_snapshot) =
   [(''Financials'', NaN), (''Information Technology'', Fin 50), (''Energy'', Fin 50),
    (''Health Care'', Fin 50), (''Consumer Discretionary'', Fin 50),
    (''Consumer Staples'', Fin 50), (''Industrials'', Fin 50), (''Materials'', Fin 50),
    (''Utilities'', Fin 50), (''Real Estate'', Fin 50), (''Communication Services'', Fin 50)]"
  by (simp add: partial_snapshot_def no_info_def CalculateValuationScore_def
     NormalizeScoreZScore_def Mean_def StdDev_def Variance_def fill_missing_def SectorNames_def
     Let_def)

lemma innovation_partial_snapshot:
  "CalculateInnovationScore (RDData partial_snapshot) =
   [(''Information Technology'', Fin 35), (''Energy'', Fin 65), (''Health Care'', Fin 50),
    (''Financials'', Fin 30), (''Consumer Discretionary'', Fin 30),
    (''Consumer Staples'', Fin 30), (''Industrials'', Fin 30), (''Materials'', Fin 30),
    (''Utilities'', Fin 30), (''Real Estate'', Fin 30), (''Communication Services'', Fin 30)]"
  by (simp add: partial_snapshot_def CalculateInnovationScore_def
     NormalizeScoreZScore_def Mean_def StdDev_def Variance_def fill_missing_def SectorNames_def
     Let_def sqrt_100 real_sqrt_divide go_round_def)

section \<open>The ranking\<close>

lemma set_insert_left: "set (insert_left lessFn x ys) = insert x (set ys)"
  using mset_insert_left [of lessFn x ys] by (metis set_mset_add_mset_insert set_mset_mset)

lemma sorted_insert_left:
  fixes f :: "'a \<Rightarrow> real"
  assumes "sorted (map f ys)"
  shows "sorted (map f (insert_left (\<lambda>a b. f b < f a) x ys))"
  using assms
proof (induction ys)
  case Nil
  show ?case by simp
next
  case (Cons y ys)
  show ?case
  proof (cases "f y < f x")
    case True
    with Cons show ?thesis by (auto simp: set_insert_left)
  next
    case False
    with Cons.prems show ?thesis by auto
  qed
qed

lemma filter_insert_left:
  fixes f :: "'a \<Rightarrow> real"
  shows "filter (\<lambda>z. f z = k) (insert_left (\<lambda>a b. f b < f a) x ys) =
         filter (\<lambda>z. f z = k) (x # ys)"
  by (induction ys) auto

lemma insert_left_cong:
  "\<forall>y \<in> set ys. l1 x y = l2 x y \<Longrightarrow> insert_left l1 x ys = insert_left l2 x ys"
  by (induction ys) auto

lemma prefix_loop:
  fixes f :: "'a \<Rightarrow> real"
  assumes "sorted (map f acc)"
    and "\<forall>a \<in> set xs \<union> set acc. \<forall>b \<in> set xs \<union> set acc. lessFn a b = (f b < f a)"
  shows "sorted (map f (foldl (\<lambda>prefix x. insert_left lessFn x prefix) acc xs))
       \<and> filter (\<lambda>z. f z = k) (foldl (\<lambda>prefix x. insert_left lessFn x prefix) acc xs) =
           rev (filter (\<lambda>z. f z = k) xs) @ filter (\<lambda>z. f z = k) acc"
  using assms
proof (induction xs arbitrary: acc)
  case Nil
  then show ?case by simp
next
  case (Cons x xs)
  have c: "insert_left lessFn x acc = insert_left (\<lambda>a b. f b < f a) x acc"
    using Cons.prems(2) by (intro insert_left_cong) auto
  have s: "sorted (map f (insert_left lessFn x acc))"
    unfolding c by (rule sorted_insert_left [OF Cons.prems(1)])
  have a: "\<forall>a \<in> set xs \<union> set (insert_left lessFn x acc).
           \<forall>b \<in> set xs \<union> set (insert_left lessFn x acc). lessFn a b = (f b < f a)"
    using Cons.prems(2) by (auto simp: set_insert_left)
  from Cons.IH [OF s a] show ?case
    by (simp add: c filter_insert_left)
qed

lemma insertionSort_numbers:
  fixes f :: "'a \<Rightarrow> real"
  assumes "\<forall>a \<in> set xs. \<forall>b \<in> set xs. lessFn a b = (f b < f a)"
  shows "sorted_wrt (\<lambda>a b. f b \<le> f a) (insertionSort lessFn xs)"
    and "filter (\<lambda>z. f z = k) (insertionSort lessFn xs) = filter (\<lambda>z. f z = k) xs"
proof -
  from assms have a: "\<forall>a \<in> set xs \<union> set []. \<forall>b \<in> set xs \<union> set []. lessFn a b = (f b < f a)"
    by simp
  have s: "sorted (map f [])" by simp
  note p = prefix_loop [OF s a]
  from p have "sorted (map f (rev (insertionSort lessFn xs)))"
    by (simp add: insertionSort_def)
  then show "sorted_wrt (\<lambda>a b. f b \<le> f a) (insertionSort lessFn xs)"
    by (simp add: sorted_wrt_rev sorted_wrt_map rev_map)
  from p [of k] show "filter (\<lambda>z. f z = k) (insertionSort lessFn xs) = filter (\<lambda>z. f z = k) xs"
    by (simp add: insertionSort_def rev_filter [symmetric])
qed

lemma is_number_num: "is_number x \<Longrightarrow> x = Fin (num x)"
  by (cases x) simp_all

lemma assign_ranks_nth:
  "i < length xs \<Longrightarrow> assign_ranks xs ! i = (xs ! i)\<lparr>Rank := int i + 1\<rparr>"
  by (simp add: assign_ranks_alt)

lemma set_assign_ranks_fields:
  "(\<lambda>r. (Sector r, OpportunityScore r)) ` set (assign_ranks xs) =
   (\<lambda>r. (Sector r, OpportunityScore r)) ` set xs"
proof -
  have "map (\<lambda>r. (Sector r, OpportunityScore r)) (assign_ranks xs) =
        map (\<lambda>r. (Sector r, OpportunityScore r)) xs"
    by (rule nth_equalityI) (simp_all add: assign_ranks_nth)
  then show ?thesis by (metis list.set_map)
qed

lemma filter_assign_ranks:
  "map Sector (filter (\<lambda>r. OpportunityScore r = k) (assign_ranks xs)) =
   map Sector (filter (\<lambda>r. OpportunityScore r = k) xs)"
proof -
  have "map Sector (filter (\<lambda>r. OpportunityScore r = k)
          (map (\<lambda>(i, score). score\<lparr>Rank := int i + 1\<rparr>) (enumerate n xs))) =
        map Sector (filter (\<lambda>r. OpportunityScore r = k) xs)" for n
    by (induction xs arbitrary: n) simp_all
  then show ?thesis by (simp add: assign_ranks_def)
qed

text \<open>
  Where the claim C2 does hold: on every snapshot for which all opportunity scores are
  numbers, the returned list is sorted descending by opportunity score, its first record
  holds the maximum, and the records of equal opportunity score keep the order of the
  configured sector list.
\<close>

lemma CalculateScores_sorted_numbers:
  assumes "CalculateScores s allData = Some scores"
    and "\<forall>r \<in> set scores. is_number (OpportunityScore r)"
  shows "sorted_wrt (\<lambda>a b. OpportunityScore b \<le> OpportunityScore a) scores"
    and "\<forall>r \<in> set scores. OpportunityScore r \<le> OpportunityScore (hd scores)"
    and "map Sector (filter (\<lambda>r. OpportunityScore r = k) scores) =
         filter (\<lambda>sector. \<exists>r \<in> set scores. Sector r = sector \<and> OpportunityScore r = k)
           SectorNames"
proof -
  obtain ms gs mc pr rs eg where c:
    "CalculateScores s allData =
       Some (assign_ranks (insertionSort (\<lambda>a b. OpportunityScore a > OpportunityScore b)
         (map (sector_score s allData ms (CalculateValuationScore [] (SectorInfo allData)) gs
                 (CalculateInnovationScore (RDData allData)) mc pr rs eg) SectorNames)))"
    using CalculateScores_structure by blast
  define g where "g = sector_score s allData ms (CalculateValuationScore [] (SectorInfo allData))
                 gs (CalculateInnovationScore (RDData allData)) mc pr rs eg"
  define raw where "raw = map g SectorNames"
  define srt where "srt = insertionSort (\<lambda>a b. OpportunityScore a > OpportunityScore b) raw"
  define f where "f = (\<lambda>r :: SectorScore. num (OpportunityScore r))"
  from c assms(1) have scores: "scores = assign_ranks srt"
    by (simp add: srt_def raw_def g_def)
  have fields: "(\<lambda>r. (Sector r, OpportunityScore r)) ` set scores =
      (\<lambda>r. (Sector r, OpportunityScore r)) ` set raw"
    unfolding scores set_assign_ranks_fields srt_def set_insertionSort ..
  have numbers_raw: "is_number (OpportunityScore r)" if "r \<in> set raw" for r
  proof -
    from that have "(Sector r, OpportunityScore r) \<in> (\<lambda>r. (Sector r, OpportunityScore r)) ` set scores"
      unfolding fields by blast
    then obtain r' where "r' \<in> set scores" "OpportunityScore r' = OpportunityScore r" by auto
    with assms(2) show ?thesis by metis
  qed
  have O: "OpportunityScore r = Fin (f r)" if "r \<in> set raw" for r
    unfolding f_def using numbers_raw [OF that] by (rule is_number_num)
  have cmp: "\<forall>a \<in> set raw. \<forall>b \<in> set raw.
      (OpportunityScore a > OpportunityScore b) = (f b < f a)"
    using O by simp
  note ins = insertionSort_numbers [OF cmp, folded srt_def]
  have Os: "OpportunityScore r = Fin (f r)" if "r \<in> set srt" for r
    using that O unfolding srt_def set_insertionSort by blast
  have Osc: "OpportunityScore r = Fin (f r)" if "r \<in> set scores" for r
    unfolding f_def using assms(2) that is_number_num by blast
  have len: "length scores = length srt" by (simp add: scores)
  have nth: "OpportunityScore (scores ! i) = OpportunityScore (srt ! i)" if "i < length srt" for i
    using that by (simp add: scores assign_ranks_nth)
  show sorted: "sorted_wrt (\<lambda>a b. OpportunityScore b \<le> OpportunityScore a) scores"
    unfolding sorted_wrt_iff_nth_less
  proof (intro allI impI)
    fix i j assume ij: "i < j" "j < length scores"
    with len have "f (srt ! j) \<le> f (srt ! i)"
      using ins(1) by (simp add: sorted_wrt_iff_nth_less)
    moreover from ij len have "srt ! i \<in> set srt" "srt ! j \<in> set srt" by simp_all
    ultimately show "OpportunityScore (scores ! j) \<le> OpportunityScore (scores ! i)"
      using ij len by (simp add: nth Os)
  qed
  show "\<forall>r \<in> set scores. OpportunityScore r \<le> OpportunityScore (hd scores)"
  proof
    fix r assume r: "r \<in> set scores"
    then obtain x xs where xs: "scores = x # xs" by (cases scores) auto
    show "OpportunityScore r \<le> OpportunityScore (hd scores)"
    proof (cases "r = x")
      case True
      with Osc [OF r] show ?thesis by (simp add: xs)
    next
      case False
      with r sorted show ?thesis by (auto simp: xs)
    qed
  qed
  have "map Sector (filter (\<lambda>r. OpportunityScore r = k) scores) =
        map Sector (filter (\<lambda>r. OpportunityScore r = k) srt)"
    unfolding scores by (rule filter_assign_ranks)
  also have "filter (\<lambda>r. OpportunityScore r = k) srt = filter (\<lambda>r. OpportunityScore r = k) raw"
  proof (cases k)
    case (Fin x)
    have "filter (\<lambda>r. OpportunityScore r = k) srt = filter (\<lambda>r. f r = x) srt"
      by (rule filter_cong) (simp_all add: Os Fin)
    also have "\<dots> = filter (\<lambda>r. f r = x) raw" by (rule ins(2))
    also have "\<dots> = filter (\<lambda>r. OpportunityScore r = k) raw"
      by (rule filter_cong) (simp_all add: O Fin)
    finally show ?thesis .
  next
    case PInf
    then have "filter (\<lambda>r. OpportunityScore r = k) srt = []"
      "filter (\<lambda>r. OpportunityScore r = k) raw = []"
      by (simp_all add: Os O)
    then show ?thesis by simp
  next
    case NInf
    then have "filter (\<lambda>r. OpportunityScore r = k) srt = []"
      "filter (\<lambda>r. OpportunityScore r = k) raw = []"
      by (simp_all add: Os O)
    then show ?thesis by simp
  next
    case NaN
    then have "filter (\<lambda>r. OpportunityScore r = k) srt = []"
      "filter (\<lambda>r. OpportunityScore r = k) raw = []"
      by (simp_all add: Os O)
    then show ?thesis by simp
  qed
  also have "map Sector (filter (\<lambda>r. OpportunityScore r = k) raw) =
      filter (\<lambda>sector. OpportunityScore (g sector) = k) SectorNames"
    unfolding raw_def by (simp add: filter_map comp_def g_def)
  also have "\<dots> = filter (\<lambda>sector. \<exists>r \<in> set scores. Sector r = sector \<and> OpportunityScore r = k)
      SectorNames"
  proof (rule filter_cong [OF refl])
    fix n assume n: "n \<in> set SectorNames"
    have "(\<exists>r \<in> set scores. Sector r = n \<and> OpportunityScore r = k) =
          ((n, k) \<in> (\<lambda>r. (Sector r, OpportunityScore r)) ` set scores)"
      by force
    also have "\<dots> = ((n, k) \<in> (\<lambda>r. (Sector r, OpportunityScore r)) ` set raw)"
      unfolding fields ..
    also have "\<dots> = (OpportunityScore (g n) = k)"
    proof
      assume "(n, k) \<in> (\<lambda>r. (Sector r, OpportunityScore r)) ` set raw"
      then obtain m where "m \<in> set SectorNames" "Sector (g m) = n" "OpportunityScore (g m) = k"
        unfolding raw_def by auto
      then show "OpportunityScore (g n) = k" by (simp add: g_def)
    next
      assume "OpportunityScore (g n) = k"
      moreover have "Sector (g n) = n" by (simp add: g_def)
      moreover from n have "g n \<in> set raw" by (simp add: raw_def)
      ultimately show "(n, k) \<in> (\<lambda>r. (Sector r, OpportunityScore r)) ` set raw"
        by force
    qed
    finally show "(OpportunityScore (g n) = k) =
        (\<exists>r \<in> set scores. Sector r = n \<and> OpportunityScore r = k)" by simp
  qed
  finally show "map Sector (filter (\<lambda>r. OpportunityScore r = k) scores) =
         filter (\<lambda>sector. \<exists>r \<in> set scores. Sector r = sector \<and> OpportunityScore r = k)
           SectorNames" .
qed

text \<open>
  Claim C2: the list returned by \<^verbatim>\<open>CalculateScores\<close> is sorted descending by opportunity
  score, with ranks 1 to N, rank 1 holding the maximum and ties in the configured order.
  The code breaks it on the snapshot \<open>partial_snapshot\<close>: the single forward P/E makes
  the valuation score of Financials \<open>NaN\<close> (the defect of C3 and C4), so does its
  opportunity score, every comparison of the sort with it is false, and Information
  Technology keeps rank 1 with 47 while Energy has rank 3 with 53.
\<close>

theorem partial_snapshot_misranked:
  "map_option (map (\<lambda>r. (Sector r, OpportunityScore r, Rank r)))
     (CalculateScores (NewSectorScorer None) partial_snapshot) =
   Some [(''Information Technology'', Fin 47, 1), (''Financials'', NaN, 2),
     (''Energy'', Fin 53, 3), (''Health Care'', Fin 50, 4),
     (''Consumer Discretionary'', Fin 46, 5), (''Consumer Staples'', Fin 46, 6),
     (''Industrials'', Fin 46, 7), (''Materials'', Fin 46, 8), (''Utilities'', Fin 46, 9),
     (''Real Estate'', Fin 46, 10), (''Communication Services'', Fin 46, 11)]"
proof -
  have d: "SectorPrices partial_snapshot = []" "MacroData partial_snapshot = []"
    "EmploymentData partial_snapshot = []"
    by (simp_all add: partial_snapshot_def)
  show ?thesis
    unfolding CalculateScores_def NewSectorScorer_default d no_prices
      valuation_partial_snapshot innovation_partial_snapshot
    by (simp add: defaultScores_def SectorNames_def sector_score_def getOrDefault_def weight_def
        DefaultWeights_def sort_Slice_def insertionSort_def assign_ranks_def go_round_def Let_def)
qed

text \<open>
  Claim C7: for every weight set summing to 1 and every entity returned by
  \<^verbatim>\<open>CalculateScores\<close>, the opportunity score is the weighted sum of the entity's component
  scores rounded to two decimals, within 0.01 of the exact sum. The code breaks it on the
  snapshot \<open>partial_snapshot\<close> under the default weights, which sum to 1: the valuation
  score of Financials is \<open>NaN\<close> (the defect of C3 and C4), so are its weighted sum and its
  opportunity score, and \<open>NaN\<close> is within 0.01 of nothing.
\<close>

theorem partial_snapshot_opportunity_not_a_number:
  "foldl (+) (Fin 0) (map snd DefaultWeights) = Fin 1
   \<and> map_option (map (\<lambda>r. (Sector r, weighted_sum DefaultWeights r, OpportunityScore r,
           within_a_hundredth (OpportunityScore r) (weighted_sum DefaultWeights r))))
         (CalculateScores (NewSectorScorer (Some DefaultWeights)) partial_snapshot) =
       Some [(''Information Technology'', Fin 47, Fin 47, True),
         (''Financials'', NaN, NaN, False),
         (''Energy'', Fin 53, Fin 53, True), (''Health Care'', Fin 50, Fin 50, True),
         (''Consumer Discretionary'', Fin 46, Fin 46, True),
         (''Consumer Staples'', Fin 46, Fin 46, True), (''Industrials'', Fin 46, Fin 46, True),
         (''Materials'', Fin 46, Fin 46, True), (''Utilities'', Fin 46, Fin 46, True),
         (''Real Estate'', Fin 46, Fin 46, True),
         (''Communication Services'', Fin 46, Fin 46, True)]"
proof -
  have d: "SectorPrices partial_snapshot = []" "MacroData partial_snapshot = []"
    "EmploymentData partial_snapshot = []"
    by (simp_all add: partial_snapshot_def)
  have h: "foldl (+) (Fin 0) (map snd DefaultWeights) = Fin 1"
    by (simp add: DefaultWeights_def)
  show ?thesis
    unfolding CalculateScores_def NewSectorScorer_default d no_prices
      valuation_partial_snapshot innovation_partial_snapshot
    by (simp add: h defaultScores_def SectorNames_def sector_score_def getOrDefault_def
        weight_def weighted_sum_def within_a_hundredth_def less_eq_float64_def
        minus_float64_def DefaultWeights_def sort_Slice_def insertionSort_def
        assign_ranks_def go_round_def Let_def)
qed

text \<open>
  Claim C10: when the supplied weights sum to exactly 0, \<^verbatim>\<open>NewSectorScorer\<close> does not
  renormalize, the weights are used unchanged, every opportunity score is 0 and the ranks
  are 1 to N. The code breaks it on the snapshot \<open>partial_snapshot\<close> under five weights 0:
  the weights are unchanged and the ranks are 1 to 11, but the valuation score of
  Financials is \<open>NaN\<close> (the defect of C3 and C4) and 0 times \<open>NaN\<close> is \<open>NaN\<close>, so its
  opportunity score is \<open>NaN\<close> and not 0.
\<close>

theorem partial_snapshot_zero_weights:
  "foldl (+) (Fin 0) (map snd zero_weights) = Fin 0
   \<and> Weights (NewSectorScorer (Some zero_weights)) = zero_weights
   \<and> map_option (map (\<lambda>r. (Sector r, OpportunityScore r, Rank r)))
         (CalculateScores (NewSectorScorer (Some zero_weights)) partial_snapshot) =
       Some [(''Information Technology'', Fin 0, 1), (''Financials'', NaN, 2),
         (''Energy'', Fin 0, 3), (''Health Care'', Fin 0, 4),
         (''Consumer Discretionary'', Fin 0, 5), (''Consumer Staples'', Fin 0, 6),
         (''Industrials'', Fin 0, 7), (''Materials'', Fin 0, 8), (''Utilities'', Fin 0, 9),
         (''Real Estate'', Fin 0, 10), (''Communication Services'', Fin 0, 11)]"
proof -
  have d: "SectorPrices partial_snapshot = []" "MacroData partial_snapshot = []"
    "EmploymentData partial_snapshot = []"
    by (simp_all add: partial_snapshot_def)
  have h: "foldl (+) (Fin 0) (map snd zero_weights) = Fin 0"
    by (simp add: zero_weights_def)
  have n: "NewSectorScorer (Some zero_weights) = \<lparr>Weights = zero_weights\<rparr>"
    by (rule NewSectorScorer_zero_sum [OF h])
  show ?thesis
    unfolding n CalculateScores_def d no_prices
      valuation_partial_snapshot innovation_partial_snapshot
    by (simp add: h defaultScores_def SectorNames_def sector_score_def getOrDefault_def
        weight_def zero_weights_def sort_Slice_def insertionSort_def assign_ranks_def
        go_round_def Let_def)
qed

end
